theory Spec2Isabelle
  imports Complex_Main "HOL-Library.Sublist" "HOL-Library.AList"
begin

section \<open>Regional pricing (src/regional-pricing.js)\<close>

text \<open>
  A shallow embedding of the regional price renderer. JavaScript numbers are
  modelled as exact rationals extended by \<open>NaN\<close> and the two infinities;
  the rounding and the overflow of IEEE doubles are not part of the model.
  Strings are byte lists. The document, the session storage and the count of
  requests are a state that the functions take and return; a thrown error is a
  value (\<open>Inl\<close>), and \<open>init\<close> returns it together with the state it
  leaves; the request is given by its outcome; console output is left out.
\<close>

subsection \<open>Numbers\<close>

datatype number = NaN | PosInf | NegInf | Num rat

text \<open>The arithmetic operators of the language on this type (no signed zero).\<close>

fun js_neg :: "number \<Rightarrow> number" where
  "js_neg NaN = NaN"
| "js_neg PosInf = NegInf"
| "js_neg NegInf = PosInf"
| "js_neg (Num a) = Num (- a)"

fun js_add :: "number \<Rightarrow> number \<Rightarrow> number" where
  "js_add (Num a) (Num b) = Num (a + b)"
| "js_add NaN _ = NaN"
| "js_add _ NaN = NaN"
| "js_add PosInf NegInf = NaN"
| "js_add NegInf PosInf = NaN"
| "js_add PosInf _ = PosInf"
| "js_add NegInf _ = NegInf"
| "js_add _ PosInf = PosInf"
| "js_add _ NegInf = NegInf"

definition js_sub :: "number \<Rightarrow> number \<Rightarrow> number" where
  "js_sub x y = js_add x (js_neg y)"

definition signed_inf :: "bool \<Rightarrow> number" where
  "signed_inf positive = (if positive then PosInf else NegInf)"

fun js_mul :: "number \<Rightarrow> number \<Rightarrow> number" where
  "js_mul (Num a) (Num b) = Num (a * b)"
| "js_mul NaN _ = NaN"
| "js_mul _ NaN = NaN"
| "js_mul PosInf PosInf = PosInf"
| "js_mul PosInf NegInf = NegInf"
| "js_mul NegInf PosInf = NegInf"
| "js_mul NegInf NegInf = PosInf"
| "js_mul PosInf (Num b) = (if b = 0 then NaN else signed_inf (0 < b))"
| "js_mul NegInf (Num b) = (if b = 0 then NaN else signed_inf (b < 0))"
| "js_mul (Num a) PosInf = (if a = 0 then NaN else signed_inf (0 < a))"
| "js_mul (Num a) NegInf = (if a = 0 then NaN else signed_inf (a < 0))"

fun js_div :: "number \<Rightarrow> number \<Rightarrow> number" where
  "js_div (Num a) (Num b) =
     (if b = 0 then (if a = 0 then NaN else signed_inf (0 < a)) else Num (a / b))"
| "js_div NaN _ = NaN"
| "js_div _ NaN = NaN"
| "js_div (Num a) PosInf = Num 0"
| "js_div (Num a) NegInf = Num 0"
| "js_div PosInf (Num b) = signed_inf (0 \<le> b)"
| "js_div NegInf (Num b) = signed_inf (b < 0)"
| "js_div PosInf PosInf = NaN"
| "js_div PosInf NegInf = NaN"
| "js_div NegInf PosInf = NaN"
| "js_div NegInf NegInf = NaN"

text \<open>\<open>Math.floor\<close> and \<open>Math.round\<close> (ties go up).\<close>

fun Math_floor :: "number \<Rightarrow> number" where
  "Math_floor (Num a) = Num (of_int \<lfloor>a\<rfloor>)"
| "Math_floor x = x"

fun Math_round :: "number \<Rightarrow> number" where
  "Math_round (Num a) = Num (of_int \<lfloor>a + 1 / 2\<rfloor>)"
| "Math_round x = x"

subsection \<open>Decimal strings\<close>

text \<open>The digits are the characters with the codes 48 to 57.\<close>

definition digit_char :: "int \<Rightarrow> char" where
  "digit_char d = char_of (48 + d)"

text \<open>The decimal numeral of a non-negative integer.\<close>

function show_nat :: "int \<Rightarrow> string" where
  "show_nat n = (if n < 10 then [digit_char n] else show_nat (n div 10) @ [digit_char (n mod 10)])"
  by pat_completeness auto
termination
  by (relation "measure nat") auto

declare show_nat.simps [simp del]

definition show_int :: "int \<Rightarrow> string" where
  "show_int i = (if i < 0 then CHR ''-'' # show_nat (- i) else show_nat i)"

text \<open>
  \<open>Number.prototype.toString\<close>, also the conversion of a number that is
  concatenated with a string. With the digits \<open>ds\<close> of the number (no zero
  at the end) and the exponent \<open>n\<close>, the number being \<open>0.ds\<close> times
  \<open>10^n\<close>, the text is laid out as the language lays it out: plain digits for
  a whole number up to 21 digits, a decimal point inside or after \<open>0.\<close>
  down to \<open>10^-6\<close>, and the exponent form beyond. The digits are those of
  the exact number; a number that is no decimal fraction (none arises from JSON
  text and the arithmetic of the source) is taken to 20 places.
\<close>

function count_factor :: "int \<Rightarrow> int \<Rightarrow> nat" where
  "count_factor p q =
     (if 1 < p \<and> 1 < q \<and> q mod p = 0 then Suc (count_factor p (q div p)) else 0)"
  by pat_completeness auto
termination
  by (relation "measure (\<lambda>(p, q). nat q)") (auto simp: int_div_less_self)

declare count_factor.simps [simp del]

definition decimal_places :: "rat \<Rightarrow> nat" where
  "decimal_places x =
     (let q = snd (quotient_of x); a = count_factor 2 q; b = count_factor 5 q
      in if q = 2 ^ a * 5 ^ b then max a b else 20)"

function trailing_zeros :: "int \<Rightarrow> nat" where
  "trailing_zeros m = (if 0 < m \<and> m mod 10 = 0 then Suc (trailing_zeros (m div 10)) else 0)"
  by pat_completeness auto
termination
  by (relation "measure nat") auto

declare trailing_zeros.simps [simp del]

definition layout :: "string \<Rightarrow> int \<Rightarrow> string" where
  "layout ds n =
     (let k = int (length ds)
      in if k \<le> n \<and> n \<le> 21 then ds @ replicate (nat (n - k)) CHR ''0''
         else if 0 < n \<and> n \<le> 21 then take (nat n) ds @ ''.'' @ drop (nat n) ds
         else if - 6 < n \<and> n \<le> 0 then ''0.'' @ replicate (nat (- n)) CHR ''0'' @ ds
         else
           (let e = n - 1;
                exponent = (if e < 0 then ''-'' else ''+'') @ show_nat \<bar>e\<bar>
            in if k = 1 then ds @ ''e'' @ exponent
               else take 1 ds @ ''.'' @ drop 1 ds @ ''e'' @ exponent))"

definition positive_text :: "rat \<Rightarrow> string" where
  "positive_text x =
     (let j = decimal_places x;
          m = \<lfloor>x * 10 ^ j + 1 / 2\<rfloor>;
          z = trailing_zeros m;
          ds = show_nat (m div 10 ^ z)
      in if m = 0 then ''0'' else layout ds (int (length ds) + int z - int j))"

fun js_toString :: "number \<Rightarrow> string" where
  "js_toString NaN = ''NaN''"
| "js_toString PosInf = ''Infinity''"
| "js_toString NegInf = ''-Infinity''"
| "js_toString (Num a) =
     (if a = 0 then ''0''
      else if a < 0 then CHR ''-'' # positive_text (- a)
      else positive_text a)"

text \<open>\<open>s.padStart(2, '0')\<close>.\<close>

definition padStart2 :: "string \<Rightarrow> string" where
  "padStart2 s = replicate (2 - length s) CHR ''0'' @ s"

subsection \<open>Price calculation\<close>

definition BASE_PRICE_MONTHLY :: number where
  "BASE_PRICE_MONTHLY = Num 19"

definition ANNUAL_DISCOUNT :: number where
  "ANNUAL_DISCOUNT = Num (8 / 10)"

record prices =
  monthly :: number
  monthlyCents :: string
  annual :: number
  annualCents :: string
  discountPercent :: number

definition monthlyRaw :: "number \<Rightarrow> number" where
  "monthlyRaw p = js_mul BASE_PRICE_MONTHLY (js_sub (Num 1) (js_div p (Num 100)))"

definition annualRaw :: "number \<Rightarrow> number" where
  "annualRaw p = js_mul (js_mul (monthlyRaw p) (Num 12)) ANNUAL_DISCOUNT"

definition calculatePrices :: "number \<Rightarrow> prices" where
  "calculatePrices p =
     (let monthlyInt = Math_floor (monthlyRaw p);
          mCents = Math_round (js_mul (js_sub (monthlyRaw p) monthlyInt) (Num 100));
          annualInt = Math_floor (annualRaw p);
          aCents = Math_round (js_mul (js_sub (annualRaw p) annualInt) (Num 100))
      in \<lparr> monthly = monthlyInt,
           monthlyCents = padStart2 (js_toString mCents),
           annual = annualInt,
           annualCents = padStart2 (js_toString aCents),
           discountPercent = p \<rparr>)"

subsection \<open>Formatting\<close>

definition formatPriceWithCents :: "number \<Rightarrow> string \<Rightarrow> string" where
  "formatPriceWithCents integer cents =
     (if cents = ''00'' then js_toString integer
      else js_toString integer @ ''<span class=\"cents\">'' @ cents @ ''</span>'')"

definition formatPriceText :: "number \<Rightarrow> string \<Rightarrow> string" where
  "formatPriceText integer cents =
     (if cents = ''00'' then ''$'' @ js_toString integer
      else ''$'' @ js_toString integer @ ''.'' @ cents)"

subsection \<open>JSON values\<close>

datatype json =
    JNull
  | JBool bool
  | JNum rat
  | JStr string
  | JArr "json list"
  | JObj "(string \<times> json) list"

text \<open>
  The result of a property read is a JSON value or \<open>undefined\<close> (\<open>None\<close>).
  A parsed object has each key once.
\<close>

type_synonym jsval = "json option"

datatype js_error = TypeError | SyntaxError | SecurityError

fun truthy :: "jsval \<Rightarrow> bool" where
  "truthy None = False"
| "truthy (Some JNull) = False"
| "truthy (Some (JBool b)) = b"
| "truthy (Some (JNum r)) = (r \<noteq> 0)"
| "truthy (Some (JStr s)) = (s \<noteq> [])"
| "truthy (Some (JArr _)) = True"
| "truthy (Some (JObj _)) = True"

text \<open>
  \<open>v.k\<close> for a value other than \<open>null\<close>, and for the keys the source reads
  (none of them is a built-in property of a string, number, boolean or array).
\<close>

fun get_prop :: "json \<Rightarrow> string \<Rightarrow> jsval" where
  "get_prop (JObj kvs) k = map_of kvs k"
| "get_prop _ k = None"

text \<open>\<open>a || b\<close>\<close>

definition js_or :: "jsval \<Rightarrow> jsval \<Rightarrow> jsval" where
  "js_or a b = (if truthy a then a else b)"

text \<open>
  A string as \<open>JSON.parse\<close> sees it: empty, not JSON, or the text of a value.
  \<open>JSON.stringify v\<close> is \<open>Encodes v\<close>.
\<close>

datatype json_text = EmptyText | Malformed | Encodes json

fun JSON_parse :: "json_text \<Rightarrow> js_error + json" where
  "JSON_parse (Encodes v) = Inr v"
| "JSON_parse _ = Inl SyntaxError"

definition JSON_stringify :: "json \<Rightarrow> json_text" where
  "JSON_stringify v = Encodes v"

fun text_truthy :: "json_text \<Rightarrow> bool" where
  "text_truthy EmptyText = False"
| "text_truthy _ = True"

subsection \<open>Parsing numbers\<close>

text \<open>
  White space, as far as a byte string has it: tab, line feed, vertical tab, form
  feed, carriage return, space.
\<close>

definition is_space :: "char \<Rightarrow> bool" where
  "is_space c = ((9 \<le> (of_char c :: int) \<and> (of_char c :: int) \<le> 13) \<or> (of_char c :: int) = 32)"

definition is_digit :: "char \<Rightarrow> bool" where
  "is_digit c = (48 \<le> (of_char c :: int) \<and> (of_char c :: int) \<le> 57)"

definition digit_val :: "char \<Rightarrow> int" where
  "digit_val c = of_char c - 48"

definition digits_val :: "string \<Rightarrow> int" where
  "digits_val ds = foldl (\<lambda>a c. 10 * a + digit_val c) 0 ds"

text \<open>The exponent part of a decimal literal: a factor, 1 when there is none.\<close>

definition exponent_digits :: "bool \<Rightarrow> string \<Rightarrow> rat" where
  "exponent_digits negative s =
     (let ds = takeWhile is_digit s
      in if ds = [] then 1
         else if negative then 1 / 10 ^ nat (digits_val ds) else 10 ^ nat (digits_val ds))"

fun exponent_factor :: "string \<Rightarrow> rat" where
  "exponent_factor (e # s) =
     (if e = CHR ''e'' \<or> e = CHR ''E'' then
        (case s of
           [] \<Rightarrow> 1
         | c # r \<Rightarrow>
             if c = CHR ''-'' then exponent_digits True r
             else if c = CHR ''+'' then exponent_digits False r
             else exponent_digits False s)
      else 1)"
| "exponent_factor [] = 1"

text \<open>The digits after a decimal point, if there is one, and what follows them.\<close>

definition fraction_part :: "string \<Rightarrow> string \<times> string" where
  "fraction_part r =
     (case r of
        [] \<Rightarrow> ([], [])
      | c # t \<Rightarrow>
          if c = CHR ''.'' then (takeWhile is_digit t, dropWhile is_digit t) else ([], r))"

definition parse_unsigned :: "string \<Rightarrow> number" where
  "parse_unsigned s =
     (if prefix ''Infinity'' s then PosInf
      else
        let ds1 = takeWhile is_digit s;
            (ds2, r2) = fraction_part (dropWhile is_digit s)
        in if ds1 = [] \<and> ds2 = [] then NaN
           else Num ((of_int (digits_val ds1) + of_int (digits_val ds2) / 10 ^ length ds2)
                     * exponent_factor r2))"

text \<open>\<open>parseFloat\<close> on a string: the longest prefix that is a decimal literal.\<close>

definition parseFloat_string :: "string \<Rightarrow> number" where
  "parseFloat_string s =
     (case dropWhile is_space s of
        [] \<Rightarrow> NaN
      | c # r \<Rightarrow>
          if c = CHR ''-'' then js_neg (parse_unsigned r)
          else if c = CHR ''+'' then parse_unsigned r
          else parse_unsigned (c # r))"

text \<open>
  The conversion of a value to a string or a number throws a \<open>TypeError\<close> for
  an object with a key \<open>toString\<close> of its own: no JSON value can be called,
  and \<open>valueOf\<close> gives no primitive value either. An array converts each of
  its elements, so it throws when one of them does.
\<close>

fun to_primitive_throws :: "json \<Rightarrow> bool" where
  "to_primitive_throws (JObj kvs) = (case map_of kvs ''toString'' of None \<Rightarrow> False | Some _ \<Rightarrow> True)"
| "to_primitive_throws (JArr xs) = list_ex to_primitive_throws xs"
| "to_primitive_throws _ = False"

text \<open>
  \<open>parseFloat\<close> converts its argument to a string first. A number prints as a
  literal that reads back as itself; \<open>true\<close>, \<open>false\<close>, \<open>null\<close>,
  \<open>undefined\<close> and \<open>[object Object]\<close> are no literals; an array prints its
  elements separated by commas, so only its first element can contribute digits.
\<close>

fun parseFloat_json :: "json \<Rightarrow> js_error + number" where
  "parseFloat_json (JNum r) = Inr (Num r)"
| "parseFloat_json (JStr s) = Inr (parseFloat_string s)"
| "parseFloat_json (JArr []) = Inr NaN"
| "parseFloat_json (JArr (x # xs)) =
     (if list_ex to_primitive_throws (x # xs) then Inl TypeError else parseFloat_json x)"
| "parseFloat_json (JObj kvs) =
     (if to_primitive_throws (JObj kvs) then Inl TypeError else Inr NaN)"
| "parseFloat_json _ = Inr NaN"

definition parseFloat :: "jsval \<Rightarrow> js_error + number" where
  "parseFloat v = (case v of None \<Rightarrow> Inr NaN | Some j \<Rightarrow> parseFloat_json j)"

text \<open>\<open>parseInt(s, 10)\<close> on a string.\<close>

definition parseInt_digits :: "string \<Rightarrow> number" where
  "parseInt_digits s =
     (let ds = takeWhile is_digit s
      in if ds = [] then NaN else Num (of_int (digits_val ds)))"

definition parseInt10 :: "string \<Rightarrow> number" where
  "parseInt10 s =
     (case dropWhile is_space s of
        [] \<Rightarrow> NaN
      | c # r \<Rightarrow>
          if c = CHR ''-'' then js_neg (parseInt_digits r)
          else if c = CHR ''+'' then parseInt_digits r
          else parseInt_digits (c # r))"

text \<open>\<open>a < b\<close> and \<open>a === b\<close> on numbers: both are false when an operand is \<open>NaN\<close>.\<close>

fun js_lt :: "number \<Rightarrow> number \<Rightarrow> bool" where
  "js_lt (Num a) (Num b) = (a < b)"
| "js_lt NaN _ = False"
| "js_lt _ NaN = False"
| "js_lt PosInf _ = False"
| "js_lt _ NegInf = False"
| "js_lt NegInf _ = True"
| "js_lt _ PosInf = True"

definition js_eq :: "number \<Rightarrow> number \<Rightarrow> bool" where
  "js_eq a b = (a \<noteq> NaN \<and> a = b)"

subsection \<open>The discount service\<close>

text \<open>
  What the request to the service comes to: the network fails, or a response
  arrives with a status and a body.
\<close>

datatype fetch_outcome = NetworkFailure | HttpResponse int json_text

definition response_ok :: "int \<Rightarrow> bool" where
  "response_ok status = (200 \<le> status \<and> status \<le> 299)"

text \<open>The body of the \<open>try\<close> block; \<open>Inl\<close> is a thrown error.\<close>

definition fetch_try :: "fetch_outcome \<Rightarrow> js_error + json" where
  "fetch_try outcome =
     (case outcome of
        NetworkFailure \<Rightarrow> Inl TypeError
      | HttpResponse status body \<Rightarrow>
          if \<not> response_ok status then Inr JNull else JSON_parse body)"

definition fetchParityDealsDiscount :: "fetch_outcome \<Rightarrow> js_error + json" where
  "fetchParityDealsDiscount outcome =
     (case fetch_try outcome of
        Inl error \<Rightarrow> Inr JNull
      | Inr v \<Rightarrow> Inr v)"

subsection \<open>Caching\<close>

text \<open>
  Session storage with the two keys the script uses. When storage is not
  available every access throws.
\<close>

record session_storage =
  available :: bool
  parity_deals_discount :: "json_text option"
  parity_deals_timestamp :: "string option"

definition CACHE_DURATION_MS :: number where
  "CACHE_DURATION_MS = Num (60 * 60 * 1000)"

definition cacheDiscountData :: "json \<Rightarrow> int \<Rightarrow> session_storage \<Rightarrow> session_storage" where
  "cacheDiscountData data now st =
     (if available st then
        st\<lparr> parity_deals_discount := Some (JSON_stringify data),
            parity_deals_timestamp := Some (show_int now) \<rparr>
      else st)"

text \<open>
  The body of the \<open>try\<close> block of the cache read: it throws, returns a value,
  or falls through (\<open>Inr None\<close>).
\<close>

definition getCachedDiscountData_try :: "int \<Rightarrow> session_storage \<Rightarrow> js_error + json option" where
  "getCachedDiscountData_try now st =
     (if \<not> available st then Inl SecurityError
      else case (parity_deals_discount st, parity_deals_timestamp st) of
             (Some data, Some timestamp) \<Rightarrow>
               if text_truthy data \<and> timestamp \<noteq> [] then
                 (let age = js_sub (Num (of_int now)) (parseInt10 timestamp)
                  in if js_lt age CACHE_DURATION_MS then
                       (case JSON_parse data of
                          Inl e \<Rightarrow> Inl e
                        | Inr v \<Rightarrow> Inr (Some v))
                     else Inr None)
               else Inr None
           | _ \<Rightarrow> Inr None)"

definition getCachedDiscountData :: "int \<Rightarrow> session_storage \<Rightarrow> json" where
  "getCachedDiscountData now st =
     (case getCachedDiscountData_try now st of
        Inr (Some v) \<Rightarrow> v
      | _ \<Rightarrow> JNull)"

subsection \<open>The page\<close>

text \<open>
  The parts of the document the script reads and writes: the featured card of
  the pricing page, the featured card of the home page, the cells of the
  comparison tables, the JSON-LD scripts, the style element with the id
  \<open>regional-pricing-hide\<close>, and the banners.
\<close>

record annual_strong =
  perYearSpan :: "string option"
  strongHTML :: string

record plus_card =
  plusAmount :: "string option"
  annualStrong :: "annual_strong option"

record home_card =
  homeAmount :: "string option"
  annualSpan :: "string option"

datatype banner_place = AfterPricingHero | PricingSectionStart

record page =
  plusCard :: "plus_card option"
  homePlusCard :: "home_card option"
  pricingHero :: bool
  otherPricingClass :: bool
  comparisonCells :: "string list"
  schemaScripts :: "json_text list"
  hideStyle :: "string option"
  keyframesStyle :: bool
  banners :: "banner_place list"

text \<open>Some element has a class attribute containing \<open>pricing\<close>.\<close>

definition has_pricing_class :: "page \<Rightarrow> bool" where
  "has_pricing_class pg =
     (plusCard pg \<noteq> None \<or> homePlusCard pg \<noteq> None \<or> pricingHero pg
      \<or> otherPricingClass pg \<or> banners pg \<noteq> [])"

subsection \<open>Comparison tables\<close>

text \<open>\<open>s.includes(t)\<close>\<close>

fun str_includes :: "string \<Rightarrow> string \<Rightarrow> bool" where
  "str_includes [] t = (t = [])"
| "str_includes (c # s) t = (prefix t (c # s) \<or> str_includes s t)"

text \<open>
  The text that takes the place of a match, for a pattern without capture groups:
  in the replacement string \<open>$$\<close> stands for a dollar sign, \<open>$&\<close> for the
  match, \<open>$`\<close> for the text before the match and \<open>$'\<close> for the text
  after it; every other character stands for itself.
\<close>

fun expand_replacement :: "string \<Rightarrow> string \<Rightarrow> string \<Rightarrow> string \<Rightarrow> string" where
  "expand_replacement (c # d # r) matched pre post =
     (if c = CHR ''$'' \<and> d = CHR ''$'' then CHR ''$'' # expand_replacement r matched pre post
      else if c = CHR ''$'' \<and> d = CHR ''&'' then matched @ expand_replacement r matched pre post
      else if c = CHR ''$'' \<and> d = CHR 0x60 then pre @ expand_replacement r matched pre post
      else if c = CHR ''$'' \<and> d = CHR 0x27 then post @ expand_replacement r matched pre post
      else c # expand_replacement (d # r) matched pre post)"
| "expand_replacement r matched pre post = r"

text \<open>
  \<open>s.replace(/pat/g, rep)\<close> for a pattern that is a literal, non-empty string:
  a scan from the left that substitutes each match and goes on behind it;
  \<open>pre\<close> is the text already passed.
\<close>

function replace_from :: "string \<Rightarrow> string \<Rightarrow> string \<Rightarrow> string \<Rightarrow> string" where
  "replace_from pat rep pre [] = []"
| "replace_from pat rep pre (c # s) =
     (if pat \<noteq> [] \<and> prefix pat (c # s)
      then expand_replacement rep pat pre (drop (length pat) (c # s))
             @ replace_from pat rep (pre @ pat) (drop (length pat) (c # s))
      else c # replace_from pat rep (pre @ [c]) s)"
  by pat_completeness auto
termination
  by (relation "measure (\<lambda>(pat, rep, pre, s). length s)") auto

definition replace_all :: "string \<Rightarrow> string \<Rightarrow> string \<Rightarrow> string" where
  "replace_all pat rep s = replace_from pat rep [] s"

definition updateCell :: "string \<Rightarrow> string \<Rightarrow> string \<Rightarrow> string" where
  "updateCell monthlyPriceText annualPriceText textContent =
     (let t1 = (if str_includes textContent ''$19''
                then replace_all ''$19'' monthlyPriceText textContent else textContent);
          t2 = (if str_includes t1 ''$182''
                then replace_all ''$182'' annualPriceText t1 else t1)
      in t2)"

subsection \<open>Structured data\<close>

text \<open>
  One step of the loop over the offers: the offer after the step and whether it
  was modified, or the error thrown.
\<close>

definition set_price :: "json \<Rightarrow> string \<Rightarrow> json" where
  "set_price offer s =
     (case offer of
        JObj kvs \<Rightarrow> JObj (AList.update ''price'' (JStr s) kvs)
      | _ \<Rightarrow> offer)"

text \<open>
  \<open>name.includes(t)\<close>: a string searches a substring, an array searches an
  element, any other value has no such method.
\<close>

definition name_includes :: "jsval \<Rightarrow> string \<Rightarrow> js_error + bool" where
  "name_includes name t =
     (case name of
        Some (JStr s) \<Rightarrow> Inr (str_includes s t)
      | Some (JArr xs) \<Rightarrow> Inr (JStr t \<in> set xs)
      | _ \<Rightarrow> Inl TypeError)"

definition patch_offer :: "prices \<Rightarrow> json \<Rightarrow> js_error + (json \<times> bool)" where
  "patch_offer prices offer =
     (if offer = JNull then Inl TypeError
      else if \<not> truthy (get_prop offer ''name'') then Inr (offer, False)
      else
        (case name_includes (get_prop offer ''name'') ''Monthly'' of
           Inl e \<Rightarrow> Inl e
         | Inr isMonthly \<Rightarrow>
             if isMonthly then Inr (set_price offer (js_toString (monthly prices)), True)
             else
               (case name_includes (get_prop offer ''name'') ''Yearly'' of
                  Inl e \<Rightarrow> Inl e
                | Inr isYearly \<Rightarrow>
                    if isYearly then Inr (set_price offer (js_toString (annual prices)), True)
                    else Inr (offer, False))))"

fun patch_offers :: "prices \<Rightarrow> json list \<Rightarrow> js_error + (json list \<times> bool)" where
  "patch_offers prices [] = Inr ([], False)"
| "patch_offers prices (offer # rest) =
     (case patch_offer prices offer of
        Inl e \<Rightarrow> Inl e
      | Inr (offer', m) \<Rightarrow>
          (case patch_offers prices rest of
             Inl e \<Rightarrow> Inl e
           | Inr (rest', m') \<Rightarrow> Inr (offer' # rest', m \<or> m')))"

text \<open>The body of the \<open>try\<close> block for one script: its new text, or the error.\<close>

definition store_offers :: "json \<Rightarrow> json list \<Rightarrow> json" where
  "store_offers schema offers =
     (case schema of
        JObj kvs \<Rightarrow> JObj (AList.update ''offers'' (JArr offers) kvs)
      | _ \<Rightarrow> schema)"

definition patch_schema :: "prices \<Rightarrow> json_text \<Rightarrow> json \<Rightarrow> js_error + json_text" where
  "patch_schema prices textContent schema =
     (if schema = JNull then Inl TypeError
      else
        (case get_prop schema ''offers'' of
           Some (JArr offers) \<Rightarrow>
             (case patch_offers prices offers of
                Inl e \<Rightarrow> Inl e
              | Inr (offers', modified) \<Rightarrow>
                  if modified then Inr (JSON_stringify (store_offers schema offers'))
                  else Inr textContent)
         | _ \<Rightarrow> Inr textContent))"

definition patch_script_try :: "prices \<Rightarrow> json_text \<Rightarrow> js_error + json_text" where
  "patch_script_try prices textContent =
     (case JSON_parse textContent of
        Inl e \<Rightarrow> Inl e
      | Inr schema \<Rightarrow> patch_schema prices textContent schema)"

definition patch_script :: "prices \<Rightarrow> json_text \<Rightarrow> json_text" where
  "patch_script prices textContent =
     (case patch_script_try prices textContent of
        Inl e \<Rightarrow> textContent
      | Inr t \<Rightarrow> t)"

definition updateSchemaOrg :: "prices \<Rightarrow> page \<Rightarrow> page" where
  "updateSchemaOrg prices pg =
     pg\<lparr> schemaScripts := map (patch_script prices) (schemaScripts pg) \<rparr>"

subsection \<open>Display update\<close>

text \<open>
  Assigning \<open>innerHTML\<close> replaces the children of the element, so the
  \<open>[data-t]\<close> child of the annual option is gone afterwards. A cell holds text only.
\<close>

definition update_annual_strong :: "string \<Rightarrow> annual_strong \<Rightarrow> annual_strong" where
  "update_annual_strong annualPriceText el =
     (let perYearText = (case perYearSpan el of Some t \<Rightarrow> t | None \<Rightarrow> ''/year'')
      in \<lparr> perYearSpan = None,
           strongHTML = annualPriceText @ ''<span>'' @ perYearText @ ''</span>'' \<rparr>)"

definition update_plus_card :: "prices \<Rightarrow> string \<Rightarrow> plus_card \<Rightarrow> plus_card" where
  "update_plus_card prices annualPriceText el =
     \<lparr> plusAmount =
         map_option (\<lambda>_. formatPriceWithCents (monthly prices) (monthlyCents prices))
           (plusAmount el),
       annualStrong = map_option (update_annual_strong annualPriceText) (annualStrong el) \<rparr>"

definition update_home_card :: "prices \<Rightarrow> string \<Rightarrow> home_card \<Rightarrow> home_card" where
  "update_home_card prices annualPriceText el =
     \<lparr> homeAmount =
         map_option (\<lambda>_. formatPriceWithCents (monthly prices) (monthlyCents prices))
           (homeAmount el),
       annualSpan =
         map_option (\<lambda>_. ''or <strong>'' @ annualPriceText @ ''/year</strong>'')
           (annualSpan el) \<rparr>"

definition updatePriceDisplay :: "prices \<Rightarrow> json \<Rightarrow> page \<Rightarrow> page" where
  "updatePriceDisplay prices data pg =
     (let annualPriceText = formatPriceText (annual prices) (annualCents prices);
          monthlyPriceText = formatPriceText (monthly prices) (monthlyCents prices);
          pg1 = pg\<lparr> plusCard := map_option (update_plus_card prices annualPriceText) (plusCard pg) \<rparr>;
          pg2 = pg1\<lparr> homePlusCard :=
                       map_option (update_home_card prices annualPriceText) (homePlusCard pg1) \<rparr>;
          pg3 = pg2\<lparr> comparisonCells :=
                       map (updateCell monthlyPriceText annualPriceText) (comparisonCells pg2) \<rparr>
      in updateSchemaOrg prices pg3)"

subsection \<open>Banner\<close>

text \<open>
  The banner is recorded by the place where it is inserted; its markup is two
  spans, the flag and the message, and nothing else. Building the markup converts
  the flag, and the message text or else the percentage and the country, to
  strings.
\<close>

definition value_throws :: "jsval \<Rightarrow> bool" where
  "value_throws v = (case v of None \<Rightarrow> False | Some j \<Rightarrow> to_primitive_throws j)"

definition banner_markup_throws :: "json \<Rightarrow> bool" where
  "banner_markup_throws data =
     (value_throws (js_or (get_prop data ''countryFlag'') (Some (JStr [])))
      \<or> (if truthy (get_prop data ''messageText'')
          then value_throws (get_prop data ''messageText'')
          else value_throws (get_prop data ''discountPercentage'')
               \<or> value_throws (get_prop data ''country'')))"

definition insert_banner :: "page \<Rightarrow> page" where
  "insert_banner pg =
     (let pg1 = pg\<lparr> keyframesStyle := True \<rparr>
      in if pricingHero pg1 then pg1\<lparr> banners := AfterPricingHero # banners pg1 \<rparr>
         else if has_pricing_class pg1 then pg1\<lparr> banners := PricingSectionStart # banners pg1 \<rparr>
         else pg1)"

definition showRegionalBanner :: "json \<Rightarrow> prices \<Rightarrow> page \<Rightarrow> js_error + page" where
  "showRegionalBanner data prices pg =
     (if data = JNull then Inl TypeError
      else if \<not> truthy (get_prop data ''discountPercentage'') then Inr pg
      else
        (case parseFloat (get_prop data ''discountPercentage'') of
           Inl e \<Rightarrow> Inl e
         | Inr percent \<Rightarrow>
             if js_eq percent (Num 0) then Inr pg
             else if banner_markup_throws data then Inl TypeError
             else Inr (insert_banner pg)))"

subsection \<open>Price visibility\<close>

definition PRICE_SELECTORS :: string where
  "PRICE_SELECTORS =
     ''.price-large .amount, .price .amount, .price-annual-option strong, .annual-price, .price-annual''"

definition HIDDEN_RULE :: string where
  "HIDDEN_RULE = PRICE_SELECTORS @ '' { opacity: 0; }''"

definition VISIBLE_RULE :: string where
  "VISIBLE_RULE = PRICE_SELECTORS @ '' { opacity: 1; transition: opacity 0.2s ease-in; }''"

definition hidePrices :: "page \<Rightarrow> page" where
  "hidePrices pg =
     (case hideStyle pg of
        Some _ \<Rightarrow> pg
      | None \<Rightarrow> pg\<lparr> hideStyle := Some HIDDEN_RULE \<rparr>)"

definition showPrices :: "page \<Rightarrow> page" where
  "showPrices pg =
     (case hideStyle pg of
        Some _ \<Rightarrow> pg\<lparr> hideStyle := Some VISIBLE_RULE \<rparr>
      | None \<Rightarrow> pg)"

subsection \<open>Initialization\<close>

record world =
  page :: page
  storage :: session_storage
  fetches :: nat

text \<open>
  The discount percentage \<open>init\<close> computes the prices from. The call of
  \<open>parseFloat\<close> stands outside every \<open>try\<close> block.
\<close>

definition discount_percent_of :: "json \<Rightarrow> js_error + number" where
  "discount_percent_of data =
     (if truthy (get_prop data ''isVpn'') \<or> truthy (get_prop data ''isProxy'')
         \<or> truthy (get_prop data ''isTor'')
      then Inr (Num 0)
      else parseFloat (js_or (get_prop data ''discountPercentage'') (Some (JNum 0))))"

text \<open>
  The cache check and the request: the data and the world after them.
  The cache is read at \<open>readNow\<close> and written at \<open>writeNow\<close>.
\<close>

definition resolve_data ::
  "int \<Rightarrow> fetch_outcome \<Rightarrow> int \<Rightarrow> world \<Rightarrow> (js_error \<times> world) + (json \<times> world)" where
  "resolve_data readNow outcome writeNow w =
     (let cached = getCachedDiscountData readNow (storage w)
      in if truthy (Some cached) then Inr (cached, w)
         else
           (let w1 = w\<lparr> fetches := fetches w + 1 \<rparr>
            in case fetchParityDealsDiscount outcome of
                 Inl e \<Rightarrow> Inl (e, w1)
               | Inr fetched \<Rightarrow>
                   if truthy (Some fetched)
                   then Inr (fetched, w1\<lparr> storage := cacheDiscountData fetched writeNow (storage w1) \<rparr>)
                   else Inr (fetched, w1)))"

text \<open>
  \<open>init\<close> completes with a world (\<open>Inr\<close>) or is rejected with an error and
  the world as it is then (\<open>Inl\<close>).
\<close>

definition init ::
  "int \<Rightarrow> fetch_outcome \<Rightarrow> int \<Rightarrow> world \<Rightarrow> (js_error \<times> world) + world" where
  "init readNow outcome writeNow w =
     (if \<not> has_pricing_class (page w) then Inr w
      else
        (let w1 = w\<lparr> page := hidePrices (page w) \<rparr>
         in case resolve_data readNow outcome writeNow w1 of
              Inl e \<Rightarrow> Inl e
            | Inr (data, w2) \<Rightarrow>
                if \<not> truthy (Some data) then Inr (w2\<lparr> page := showPrices (page w2) \<rparr>)
                else
                  (case discount_percent_of data of
                     Inl e \<Rightarrow> Inl (e, w2)
                   | Inr percent \<Rightarrow>
                       (let prices = calculatePrices percent
                        in Inr (w2\<lparr> page := showPrices (updatePriceDisplay prices data (page w2)) \<rparr>)))))"

text \<open>The world \<open>init\<close> leaves, completed or not.\<close>

definition final_world :: "(js_error \<times> world) + world \<Rightarrow> world" where
  "final_world r = (case r of Inl (e, w) \<Rightarrow> w | Inr w \<Rightarrow> w)"

subsection \<open>Reference functions\<close>

text \<open>
  What the properties below compare the program with. These functions and
  predicates are not taken from the source; the two functions are named
  \<open>spec_\<close>.
\<close>

text \<open>
  The replacement of every occurrence of a pattern by a text that is inserted as
  it is, by a scan from the left.
\<close>

function spec_replace_all :: "string \<Rightarrow> string \<Rightarrow> string \<Rightarrow> string" where
  "spec_replace_all pat rep [] = []"
| "spec_replace_all pat rep (c # s) =
     (if pat \<noteq> [] \<and> prefix pat (c # s)
      then rep @ spec_replace_all pat rep (drop (length pat) (c # s))
      else c # spec_replace_all pat rep s)"
  by pat_completeness auto
termination
  by (relation "measure (\<lambda>(pat, rep, s). length s)") auto

text \<open>
  A character that gives a dollar sign before it a meaning in a replacement
  string, and a string in which some dollar sign has such a meaning.
\<close>

definition pattern_char :: "char \<Rightarrow> bool" where
  "pattern_char c = (c = CHR ''$'' \<or> c = CHR ''&'' \<or> c = CHR 0x60 \<or> c = CHR 0x27)"

fun has_pattern :: "string \<Rightarrow> bool" where
  "has_pattern (c # d # r) = ((c = CHR ''$'' \<and> pattern_char d) \<or> has_pattern (d # r))"
| "has_pattern r = False"

text \<open>
  The offer as the claim on the structured data describes it: the price is the
  text of the monthly price when the name contains \<open>Monthly\<close>, otherwise the
  text of the annual price when the name contains \<open>Yearly\<close>, and the offer is
  unchanged otherwise.
\<close>

definition spec_priced_offer :: "prices \<Rightarrow> json \<Rightarrow> json" where
  "spec_priced_offer prices offer =
     (case get_prop offer ''name'' of
        Some (JStr s) \<Rightarrow>
          if str_includes s ''Monthly'' then set_price offer (js_toString (monthly prices))
          else if str_includes s ''Yearly'' then set_price offer (js_toString (annual prices))
          else offer
      | _ \<Rightarrow> offer)"

text \<open>An offer that is not \<open>null\<close> and whose name, if it has one, is a string.\<close>

definition named_by_string :: "json \<Rightarrow> bool" where
  "named_by_string offer =
     (offer \<noteq> JNull
      \<and> (case get_prop offer ''name'' of None \<Rightarrow> True | Some (JStr s) \<Rightarrow> True | Some v \<Rightarrow> False))"

text \<open>
  The numbers that a double holds exactly and prints digit by digit: \<open>NaN\<close>,
  the infinities, and the whole numbers below \<open>2^53\<close> in absolute value.
\<close>

definition plain_number :: "number \<Rightarrow> bool" where
  "plain_number x =
     (case x of Num a \<Rightarrow> a = of_int \<lfloor>a\<rfloor> \<and> \<bar>a\<bar> < 2 ^ 53 | _ \<Rightarrow> True)"

subsection \<open>Example inputs\<close>

text \<open>A response that grants 50 percent, the same response with the VPN flag, a page and a world.\<close>

definition india_response :: json where
  "india_response =
     JObj [(''country'', JStr ''India''), (''countryCode'', JStr ''IN''),
           (''discountPercentage'', JStr ''50.00''),
           (''isVpn'', JBool False), (''isProxy'', JBool False), (''isTor'', JBool False)]"

definition vpn_response :: json where
  "vpn_response =
     JObj [(''country'', JStr ''India''), (''countryCode'', JStr ''IN''),
           (''discountPercentage'', JStr ''50.00''),
           (''isVpn'', JBool True), (''isProxy'', JBool False), (''isTor'', JBool False)]"

definition pricing_page :: page where
  "pricing_page =
     \<lparr> plusCard =
         Some \<lparr> plusAmount = Some ''19'',
                annualStrong = Some \<lparr> perYearSpan = Some ''/year'', strongHTML = ''$182<span data-t>/year</span>'' \<rparr> \<rparr>,
       homePlusCard = None,
       pricingHero = True,
       otherPricingClass = True,
       comparisonCells = [''Free'', ''$19/month'', ''$182/year''],
       schemaScripts =
         [Encodes (JObj [(''@type'', JStr ''Product''),
                         (''offers'', JArr [JObj [(''name'', JStr ''Plus Monthly''), (''price'', JStr ''19'')],
                                           JObj [(''name'', JStr ''Plus Yearly''), (''price'', JStr ''182'')]])])],
       hideStyle = None,
       keyframesStyle = False,
       banners = [] \<rparr>"

definition empty_storage :: session_storage where
  "empty_storage = \<lparr> available = True, parity_deals_discount = None, parity_deals_timestamp = None \<rparr>"

definition fresh_world :: world where
  "fresh_world = \<lparr> page = pricing_page, storage = empty_storage, fetches = 0 \<rparr>"

text \<open>A world whose storage holds the response, cached at the time 1005.\<close>

definition cached_world :: world where
  "cached_world = fresh_world\<lparr> storage := cacheDiscountData india_response 1005 empty_storage \<rparr>"

text \<open>
  A response whose percentage is an object with a key \<open>toString\<close>, and a page
  whose comparison table has amounts that contain \<open>$19\<close> and \<open>$182\<close>.
\<close>

definition toString_response :: json where
  "toString_response = JObj [(''discountPercentage'', JObj [(''toString'', JNum 1)])]"

definition comparison_page :: page where
  "comparison_page =
     pricing_page\<lparr> comparisonCells := [''Free'', ''$19/month'', ''$190'', ''$19.99'', ''$1820 or $182'' ] \<rparr>"

text \<open>Both cents strings of the prices for a whole percentage are two digits.\<close>

definition two_digit_cents :: "int \<Rightarrow> bool" where
  "two_digit_cents n =
     (let q = calculatePrices (Num (of_int n))
      in length (monthlyCents q) = 2 \<and> list_all is_digit (monthlyCents q)
         \<and> length (annualCents q) = 2 \<and> list_all is_digit (annualCents q))"

section \<open>Properties\<close>

subsection \<open>Price calculation\<close>

text \<open>
  The integer parts are the floors of the unrounded prices: the annual price is
  computed from the unrounded monthly price, not from its integer part.
\<close>

lemma calculatePrices_integer_parts:
  "monthly (calculatePrices p) = Math_floor (monthlyRaw p)
   \<and> annual (calculatePrices p) = Math_floor (annualRaw p)
   \<and> annualRaw p = js_mul (js_mul (monthlyRaw p) (Num 12)) ANNUAL_DISCOUNT"
  by (simp add: calculatePrices_def annualRaw_def Let_def)

text \<open>
  For the whole percentages from 0 to 100 the remainder never rounds to 100, and
  both cents strings are two digits.
\<close>

lemma whole_percentages: "list_all two_digit_cents [0..100]"
  by code_simp

lemma cents_two_digits_whole_percentage:
  "0 \<le> n \<Longrightarrow> n \<le> 100 \<Longrightarrow>
   length (monthlyCents (calculatePrices (Num (of_int n)))) = 2
   \<and> length (annualCents (calculatePrices (Num (of_int n)))) = 2"
  using whole_percentages by (simp add: list_all_iff two_digit_cents_def Let_def)

text \<open>
  C1, at the discount percentage 6.8: the unrounded annual price is 169.9968, the
  integer part is 169 and the remainder rounds to 100 cents, so the cents part has
  three digits and the annual price is displayed as \<open>$169.100\<close>.
\<close>

theorem calculatePrices_annual_cents_carry:
  "calculatePrices (Num (68 / 10)) =
     \<lparr> monthly = Num 17, monthlyCents = ''71'', annual = Num 169, annualCents = ''100'',
       discountPercent = Num (68 / 10) \<rparr>
   \<and> formatPriceText (Num 169) ''100'' = ''$169.100''"
  by code_simp

text \<open>
  C2, as the claim states it: with the base price 19 and the discount percentage 50
  the monthly price is 9 and the annual price is 86. The annual price is not 86.
\<close>

theorem calculatePrices_half_price_annual_not_86:
  "\<not> (monthly (calculatePrices (Num 50)) = Num 9 \<and> annual (calculatePrices (Num 50)) = Num 86)"
  by code_simp

text \<open>
  C2, amended: with the base price 19 and the discount percentage 50 the monthly
  price is 9 with the cents 50, and the annual price is the floor of 9.5 times 9.6,
  which is 91, with the cents 20.
\<close>

theorem calculatePrices_half_price:
  "BASE_PRICE_MONTHLY = Num 19 \<and>
   calculatePrices (Num 50) =
     \<lparr> monthly = Num 9, monthlyCents = ''50'', annual = Num 91, annualCents = ''20'',
       discountPercent = Num 50 \<rparr>"
  by code_simp

text \<open>
  C8, at the discount percentage 15.8: the unrounded monthly price is 15.998, the
  integer part is 15 and the remainder rounds to 100 cents, so the monthly cents
  string has three characters.
\<close>

theorem calculatePrices_monthly_cents_carry:
  "calculatePrices (Num (158 / 10)) =
     \<lparr> monthly = Num 15, monthlyCents = ''100'', annual = Num 153, annualCents = ''58'',
       discountPercent = Num (158 / 10) \<rparr>
   \<and> length (monthlyCents (calculatePrices (Num (158 / 10)))) = 3"
  by code_simp

subsection \<open>The discount service\<close>

lemma fetch_never_throws: "\<exists>v. fetchParityDealsDiscount outcome = Inr v"
  by (simp add: fetchParityDealsDiscount_def split: sum.split)

lemma fetch_failure_null:
  "outcome = NetworkFailure
   \<or> (\<exists>status body. outcome = HttpResponse status body
         \<and> (\<not> response_ok status \<or> body = Malformed \<or> body = EmptyText))
   \<Longrightarrow> fetchParityDealsDiscount outcome = Inr JNull"
  by (auto simp: fetchParityDealsDiscount_def fetch_try_def)

text \<open>
  C6: the request function returns the parsed body when the response has a success
  status (200 to 299) and a body that is JSON; it returns \<open>null\<close> when the
  network fails, when the status is not a success, and when the body is malformed or
  empty; and it never throws: every outcome yields a value.
\<close>

theorem fetchParityDealsDiscount_result:
  "(\<forall>status v. response_ok status \<longrightarrow>
       fetchParityDealsDiscount (HttpResponse status (Encodes v)) = Inr v)
   \<and> fetchParityDealsDiscount NetworkFailure = Inr JNull
   \<and> (\<forall>status body. \<not> response_ok status \<longrightarrow>
         fetchParityDealsDiscount (HttpResponse status body) = Inr JNull)
   \<and> (\<forall>status. fetchParityDealsDiscount (HttpResponse status Malformed) = Inr JNull)
   \<and> (\<forall>status. fetchParityDealsDiscount (HttpResponse status EmptyText) = Inr JNull)
   \<and> (\<forall>outcome. \<exists>v. fetchParityDealsDiscount outcome = Inr v)"
  by (simp add: fetchParityDealsDiscount_def fetch_try_def split: sum.split fetch_outcome.split)

theorem fetchParityDealsDiscount_result_witness:
  "response_ok 200
   \<and> fetchParityDealsDiscount (HttpResponse 200 (Encodes india_response)) = Inr india_response
   \<and> \<not> response_ok 503
   \<and> fetchParityDealsDiscount (HttpResponse 503 (Encodes india_response)) = Inr JNull"
  using fetchParityDealsDiscount_result by (simp add: response_ok_def)

subsection \<open>Visibility\<close>

lemma hideStyle_showPrices [simp]:
  "hideStyle (showPrices pg) = map_option (\<lambda>_. VISIBLE_RULE) (hideStyle pg)"
  by (simp add: showPrices_def split: option.split)

lemma hideStyle_hidePrices [simp]:
  "hideStyle (hidePrices pg) = Some (case hideStyle pg of Some r \<Rightarrow> r | None \<Rightarrow> HIDDEN_RULE)"
  by (simp add: hidePrices_def split: option.split)

lemma hideStyle_updatePriceDisplay [simp]:
  "hideStyle (updatePriceDisplay prices data pg) = hideStyle pg"
  by (simp add: updatePriceDisplay_def updateSchemaOrg_def Let_def)

lemma banners_updatePriceDisplay [simp]:
  "banners (updatePriceDisplay prices data pg) = banners pg"
  by (simp add: updatePriceDisplay_def updateSchemaOrg_def Let_def)

lemma banners_showPrices [simp]: "banners (showPrices pg) = banners pg"
  by (simp add: showPrices_def split: option.split)

lemma banners_hidePrices [simp]: "banners (hidePrices pg) = banners pg"
  by (simp add: hidePrices_def split: option.split)

lemma showPrices_hidePrices: "showPrices (hidePrices pg) = pg\<lparr> hideStyle := Some VISIBLE_RULE \<rparr>"
  by (simp add: showPrices_def hidePrices_def split: option.split)

lemma has_pricing_class_hidePrices [simp]:
  "has_pricing_class (hidePrices pg) = has_pricing_class pg"
  by (simp add: has_pricing_class_def hidePrices_def split: option.split)

lemma resolve_data_page:
  "resolve_data readNow outcome writeNow w = Inr (data, w2) \<Longrightarrow> page w2 = page w"
  by (auto simp: resolve_data_def Let_def split: if_splits sum.splits)

lemma resolve_data_total:
  "\<exists>data w2. resolve_data readNow outcome writeNow w = Inr (data, w2)"
  using fetch_never_throws [of outcome]
  by (auto simp: resolve_data_def Let_def)

text \<open>What \<open>init\<close> does with the data it has resolved.\<close>

lemma init_with_data:
  assumes "has_pricing_class (page w)"
    and "resolve_data readNow outcome writeNow (w\<lparr> page := hidePrices (page w) \<rparr>) = Inr (data, w2)"
  shows "init readNow outcome writeNow w =
           (if \<not> truthy (Some data) then Inr (w2\<lparr> page := showPrices (page w2) \<rparr>)
            else case discount_percent_of data of
                   Inl e \<Rightarrow> Inl (e, w2)
                 | Inr percent \<Rightarrow>
                     Inr (w2\<lparr> page := showPrices (updatePriceDisplay (calculatePrices percent)
                                                    data (page w2)) \<rparr>))"
  using assms by (simp add: init_def Let_def split: sum.split)

text \<open>
  When \<open>init\<close> completes on a page with pricing content the style element holds
  the rule that shows the prices; when it is rejected, the style element it has
  created holds the rule that hides them.
\<close>

lemma init_completed_visible:
  assumes "has_pricing_class (page w)" and "init readNow outcome writeNow w = Inr w'"
  shows "hideStyle (page w') = Some VISIBLE_RULE"
proof -
  let ?w1 = "w\<lparr> page := hidePrices (page w) \<rparr>"
  obtain data w2 where r: "resolve_data readNow outcome writeNow ?w1 = Inr (data, w2)"
    using resolve_data_total by blast
  then have pg: "page w2 = hidePrices (page w)"
    using resolve_data_page [OF r] by simp
  show ?thesis
    using assms(2) pg init_with_data [OF assms(1) r]
    by (auto split: if_splits sum.splits)
qed

lemma init_rejected_hidden:
  assumes "has_pricing_class (page w)" and "hideStyle (page w) = None"
    and "init readNow outcome writeNow w = Inl (e, w')"
  shows "hideStyle (page w') = Some HIDDEN_RULE"
proof -
  let ?w1 = "w\<lparr> page := hidePrices (page w) \<rparr>"
  obtain data w2 where r: "resolve_data readNow outcome writeNow ?w1 = Inr (data, w2)"
    using resolve_data_total by blast
  then have pg: "page w2 = hidePrices (page w)"
    using resolve_data_page [OF r] by simp
  show ?thesis
    using assms(2,3) pg init_with_data [OF assms(1) r]
    by (auto split: if_splits sum.splits)
qed

lemma init_no_data:
  assumes "has_pricing_class (page w)"
    and "\<not> truthy (Some (getCachedDiscountData readNow (storage w)))"
    and "fetchParityDealsDiscount outcome = Inr JNull"
  shows "init readNow outcome writeNow w =
           Inr (w\<lparr> page := (page w)\<lparr> hideStyle := Some VISIBLE_RULE \<rparr>, fetches := fetches w + 1 \<rparr>)"
  using assms by (simp add: init_def resolve_data_def Let_def showPrices_hidePrices)

lemma fresh_world_has_pricing: "has_pricing_class (page fresh_world)"
  by (simp add: fresh_world_def pricing_page_def has_pricing_class_def)

lemma fresh_world_cache_empty: "getCachedDiscountData readNow (storage fresh_world) = JNull"
  by (simp add: fresh_world_def empty_storage_def getCachedDiscountData_def
      getCachedDiscountData_try_def)

lemma fresh_resolve:
  assumes "truthy (Some v)"
  shows "resolve_data 1000 (HttpResponse 200 (Encodes v)) 1005
     (fresh_world\<lparr> page := hidePrices (page fresh_world) \<rparr>) =
   Inr (v, \<lparr> page = hidePrices pricing_page,
             storage = cacheDiscountData v 1005 empty_storage,
             fetches = 1 \<rparr>)"
proof -
  have c: "getCachedDiscountData 1000 empty_storage = JNull"
    by (simp add: empty_storage_def getCachedDiscountData_def getCachedDiscountData_try_def)
  have f: "fetchParityDealsDiscount (HttpResponse 200 (Encodes v)) = Inr v"
    by (simp add: fetchParityDealsDiscount_def fetch_try_def response_ok_def)
  show ?thesis
    using assms c f by (simp add: resolve_data_def fresh_world_def Let_def)
qed

lemma hidePrices_pricing_page: "hidePrices pricing_page = pricing_page\<lparr> hideStyle := Some HIDDEN_RULE \<rparr>"
  by (simp add: hidePrices_def pricing_page_def)

lemma rules_differ: "HIDDEN_RULE \<noteq> VISIBLE_RULE"
  by (simp add: HIDDEN_RULE_def VISIBLE_RULE_def)

text \<open>
  C7, at a response with the status 200 whose \<open>discountPercentage\<close> is the
  object \<open>{"toString": 1}\<close>, on a page with pricing content and an empty cache:
  \<open>init\<close> hides the prices, makes the request and stores the response, and is
  then rejected with a \<open>TypeError\<close> by the conversion of the percentage. It
  never shows the prices: the style element is left with the rule that hides them.
\<close>

theorem init_rejected_prices_hidden:
  "init 1000 (HttpResponse 200 (Encodes toString_response)) 1005 fresh_world =
     Inl (TypeError,
          \<lparr> page = pricing_page\<lparr> hideStyle := Some HIDDEN_RULE \<rparr>,
            storage = cacheDiscountData toString_response 1005 empty_storage,
            fetches = 1 \<rparr>)
   \<and> hideStyle (page (final_world
        (init 1000 (HttpResponse 200 (Encodes toString_response)) 1005 fresh_world))) =
       Some HIDDEN_RULE
   \<and> HIDDEN_RULE \<noteq> VISIBLE_RULE"
proof -
  have t: "truthy (Some toString_response)" by (simp add: toString_response_def)
  have d: "discount_percent_of toString_response = Inl TypeError"
    by (simp add: discount_percent_of_def toString_response_def js_or_def parseFloat_def)
  have "init 1000 (HttpResponse 200 (Encodes toString_response)) 1005 fresh_world =
     Inl (TypeError,
          \<lparr> page = pricing_page\<lparr> hideStyle := Some HIDDEN_RULE \<rparr>,
            storage = cacheDiscountData toString_response 1005 empty_storage,
            fetches = 1 \<rparr>)"
    using init_with_data [OF fresh_world_has_pricing fresh_resolve [OF t]] t d
    by (simp add: hidePrices_pricing_page)
  then show ?thesis
    using rules_differ by (simp add: final_world_def)
qed

subsection \<open>The discount percentage\<close>

lemma truthy_prop_truthy: "truthy (get_prop data k) \<Longrightarrow> truthy (Some data)"
  by (cases data) simp_all

text \<open>
  C4: when the response has a truthy \<open>isVpn\<close>, \<open>isProxy\<close> or \<open>isTor\<close>
  (the value \<open>true\<close> is truthy), the discount percentage is 0 whatever
  \<open>discountPercentage\<close> holds, and \<open>init\<close> displays the prices computed from 0.
\<close>

theorem flagged_visitor_gets_base_price:
  "truthy (get_prop data ''isVpn'') \<or> truthy (get_prop data ''isProxy'')
     \<or> truthy (get_prop data ''isTor'') \<Longrightarrow>
   discount_percent_of data = Inr (Num 0)
   \<and> (has_pricing_class (page w) \<longrightarrow>
        resolve_data readNow outcome writeNow (w\<lparr> page := hidePrices (page w) \<rparr>) = Inr (data, w2) \<longrightarrow>
        init readNow outcome writeNow w =
          Inr (w2\<lparr> page := showPrices (updatePriceDisplay (calculatePrices (Num 0)) data (page w2)) \<rparr>))"
proof -
  assume flagged: "truthy (get_prop data ''isVpn'') \<or> truthy (get_prop data ''isProxy'')
     \<or> truthy (get_prop data ''isTor'')"
  then have zero: "discount_percent_of data = Inr (Num 0)"
    by (simp add: discount_percent_of_def)
  from flagged have "truthy (Some data)"
    using truthy_prop_truthy by blast
  then show ?thesis
    using zero init_with_data [of w readNow outcome writeNow data w2] by simp
qed

theorem flagged_visitor_gets_base_price_witness:
  "get_prop vpn_response ''isVpn'' = Some (JBool True)
   \<and> parseFloat (get_prop vpn_response ''discountPercentage'') = Inr (Num 50)
   \<and> discount_percent_of vpn_response = Inr (Num 0)
   \<and> has_pricing_class (page fresh_world)
   \<and> init 1000 (HttpResponse 200 (Encodes vpn_response)) 1005 fresh_world =
       Inr \<lparr> page = showPrices (updatePriceDisplay (calculatePrices (Num 0)) vpn_response
                                   (hidePrices pricing_page)),
             storage = cacheDiscountData vpn_response 1005 empty_storage,
             fetches = 1 \<rparr>"
proof -
  have a: "get_prop vpn_response ''isVpn'' = Some (JBool True)"
    by (simp add: vpn_response_def)
  have b: "parseFloat (get_prop vpn_response ''discountPercentage'') = Inr (Num 50)"
    by code_simp
  from a have fl: "truthy (get_prop vpn_response ''isVpn'')" by simp
  have t: "truthy (Some vpn_response)" by (simp add: vpn_response_def)
  show ?thesis
    using a b fl fresh_world_has_pricing fresh_resolve [OF t]
      flagged_visitor_gets_base_price [of vpn_response fresh_world 1000
        "HttpResponse 200 (Encodes vpn_response)" 1005
        "\<lparr> page = hidePrices pricing_page,
           storage = cacheDiscountData vpn_response 1005 empty_storage, fetches = 1 \<rparr>"]
    by simp
qed

subsection \<open>Banner\<close>

text \<open>Whether \<open>init\<close> completes or is rejected, it leaves the banners as they were.\<close>

lemma init_banners:
  "banners (page (final_world (init readNow outcome writeNow w))) = banners (page w)"
proof (cases "has_pricing_class (page w)")
  case False
  then show ?thesis by (simp add: init_def final_world_def)
next
  case True
  let ?w1 = "w\<lparr> page := hidePrices (page w) \<rparr>"
  obtain data w2 where r: "resolve_data readNow outcome writeNow ?w1 = Inr (data, w2)"
    using resolve_data_total by blast
  then have pg: "page w2 = hidePrices (page w)"
    using resolve_data_page [OF r] by simp
  show ?thesis
    using pg by (simp add: init_with_data [OF True r] final_world_def split: sum.split)
qed

lemma india_discount: "discount_percent_of india_response = Inr (Num 50)"
  by code_simp

lemma india_flags:
  "\<not> truthy (get_prop india_response ''isVpn'') \<and> \<not> truthy (get_prop india_response ''isProxy'')
   \<and> \<not> truthy (get_prop india_response ''isTor'')"
  by (simp add: india_response_def)

lemma india_init:
  "init 1000 (HttpResponse 200 (Encodes india_response)) 1005 fresh_world =
     Inr \<lparr> page = showPrices (updatePriceDisplay (calculatePrices (Num 50)) india_response
                                 (hidePrices pricing_page)),
           storage = cacheDiscountData india_response 1005 empty_storage,
           fetches = 1 \<rparr>"
proof -
  have t: "truthy (Some india_response)" by (simp add: india_response_def)
  show ?thesis
    using init_with_data [OF fresh_world_has_pricing fresh_resolve [OF t]] t india_discount
    by simp
qed

text \<open>
  C5, as the claim states it: a page load with a discount of 50 percent and no
  VPN, proxy or Tor flag inserts a banner. It does not: \<open>init\<close> completes and
  the page has no banner.
\<close>

theorem no_banner_for_discounted_visitor:
  "discount_percent_of india_response = Inr (Num 50)
   \<and> \<not> truthy (get_prop india_response ''isVpn'')
   \<and> \<not> truthy (get_prop india_response ''isProxy'')
   \<and> \<not> truthy (get_prop india_response ''isTor'')
   \<and> init 1000 (HttpResponse 200 (Encodes india_response)) 1005 fresh_world =
       Inr \<lparr> page = showPrices (updatePriceDisplay (calculatePrices (Num 50)) india_response
                                   (hidePrices pricing_page)),
             storage = cacheDiscountData india_response 1005 empty_storage,
             fetches = 1 \<rparr>
   \<and> banners (showPrices (updatePriceDisplay (calculatePrices (Num 50)) india_response
                 (hidePrices pricing_page))) = []"
  using india_discount india_flags india_init by (simp add: pricing_page_def)

text \<open>
  C5, amended: \<open>init\<close> inserts no banner on any page load, whatever the discount
  and the flags and whether it completes or is rejected, since neither \<open>init\<close>
  nor the display update calls \<open>showRegionalBanner\<close>. That function, called
  with a response, inserts nothing when \<open>discountPercentage\<close> is falsy or reads
  as 0; called with the response of 50 percent it inserts a banner after the
  pricing hero.
\<close>

theorem init_inserts_no_banner:
  "banners (page (final_world (init readNow outcome writeNow w))) = banners (page w)
   \<and> (data \<noteq> JNull \<longrightarrow> \<not> truthy (get_prop data ''discountPercentage'') \<longrightarrow>
        showRegionalBanner data prices pg = Inr pg)
   \<and> (data \<noteq> JNull \<longrightarrow> parseFloat (get_prop data ''discountPercentage'') = Inr (Num 0) \<longrightarrow>
        showRegionalBanner data prices pg = Inr pg)
   \<and> showRegionalBanner india_response (calculatePrices (Num 50)) pricing_page =
       Inr (pricing_page\<lparr> keyframesStyle := True, banners := [AfterPricingHero] \<rparr>)"
proof -
  have shown: "showRegionalBanner india_response (calculatePrices (Num 50)) pricing_page =
       Inr (pricing_page\<lparr> keyframesStyle := True, banners := [AfterPricingHero] \<rparr>)"
    by code_simp
  show ?thesis
    using init_banners [of readNow outcome writeNow w] shown
    by (simp add: showRegionalBanner_def js_eq_def)
qed

theorem init_inserts_no_banner_witness:
  "banners (page (final_world
      (init 1000 (HttpResponse 200 (Encodes india_response)) 1005 fresh_world))) = []
   \<and> parseFloat (get_prop (JObj [(''discountPercentage'', JStr ''0.00'')]) ''discountPercentage'') =
       Inr (Num 0)
   \<and> showRegionalBanner (JObj [(''discountPercentage'', JStr ''0.00'')])
        (calculatePrices (Num 0)) pricing_page = Inr pricing_page
   \<and> \<not> truthy (get_prop (JObj [(''country'', JStr ''France'')]) ''discountPercentage'')
   \<and> showRegionalBanner (JObj [(''country'', JStr ''France'')])
        (calculatePrices (Num 0)) pricing_page = Inr pricing_page"
proof -
  have b: "banners (page fresh_world) = []"
    by (simp add: fresh_world_def pricing_page_def)
  have z: "parseFloat (get_prop (JObj [(''discountPercentage'', JStr ''0.00'')])
                   ''discountPercentage'') = Inr (Num 0)"
    by code_simp
  have f: "\<not> truthy (get_prop (JObj [(''country'', JStr ''France'')]) ''discountPercentage'')"
    by simp
  show ?thesis
    using b z f
      init_inserts_no_banner [of 1000 "HttpResponse 200 (Encodes india_response)" 1005 fresh_world
        "JObj [(''discountPercentage'', JStr ''0.00'')]" "calculatePrices (Num 0)" pricing_page]
      init_inserts_no_banner [of 1000 "HttpResponse 200 (Encodes india_response)" 1005 fresh_world
        "JObj [(''country'', JStr ''France'')]" "calculatePrices (Num 0)" pricing_page]
    by simp
qed

subsection \<open>Caching\<close>

lemma digit_char_props:
  assumes "0 \<le> d" and "d < 10"
  shows "is_digit (digit_char d)" and "digit_val (digit_char d) = d"
    and "\<not> is_space (digit_char d)" and "digit_char d \<noteq> CHR ''-''" and "digit_char d \<noteq> CHR ''+''"
proof -
  have code: "(of_char (digit_char d) :: int) = 48 + d"
    using assms by (simp add: digit_char_def)
  show "is_digit (digit_char d)" using assms code by (simp add: is_digit_def)
  show "digit_val (digit_char d) = d" using code by (simp add: digit_val_def)
  show "\<not> is_space (digit_char d)" using assms code by (simp add: is_space_def)
  show "digit_char d \<noteq> CHR ''-''"
  proof
    assume "digit_char d = CHR ''-''"
    then have "(of_char (digit_char d) :: int) = of_char CHR ''-''" by simp
    with code assms show False by simp
  qed
  show "digit_char d \<noteq> CHR ''+''"
  proof
    assume "digit_char d = CHR ''+''"
    then have "(of_char (digit_char d) :: int) = of_char CHR ''+''" by simp
    with code assms show False by simp
  qed
qed

lemma show_nat_digits: "0 \<le> n \<Longrightarrow> show_nat n \<noteq> [] \<and> (\<forall>c \<in> set (show_nat n). is_digit c)"
proof (induction n rule: show_nat.induct)
  case (1 n)
  show ?case
  proof (cases "n < 10")
    case True
    with 1(2) show ?thesis
      by (simp add: show_nat.simps [of n] digit_char_props)
  next
    case False
    then have "0 \<le> n div 10" by simp
    with 1(1) False have ih: "\<forall>c \<in> set (show_nat (n div 10)). is_digit c" by simp
    have "is_digit (digit_char (n mod 10))"
      by (rule digit_char_props) simp_all
    with ih False show ?thesis
      by (simp add: show_nat.simps [of n])
  qed
qed

lemma digits_val_snoc: "digits_val (ds @ [c]) = 10 * digits_val ds + digit_val c"
  by (simp add: digits_val_def)

lemma digits_val_show_nat: "0 \<le> n \<Longrightarrow> digits_val (show_nat n) = n"
proof (induction n rule: show_nat.induct)
  case (1 n)
  show ?case
  proof (cases "n < 10")
    case True
    with 1(2) show ?thesis
      by (simp add: show_nat.simps [of n] digits_val_def digit_char_props)
  next
    case False
    then have "0 \<le> n div 10" by simp
    with 1(1) False have ih: "digits_val (show_nat (n div 10)) = n div 10" by simp
    have "digit_val (digit_char (n mod 10)) = n mod 10"
      by (rule digit_char_props) simp_all
    with ih False show ?thesis
      by (simp add: show_nat.simps [of n] digits_val_snoc)
  qed
qed

lemma parseInt_digits_show_nat: "0 \<le> n \<Longrightarrow> parseInt_digits (show_nat n) = Num (of_int n)"
proof -
  assume n: "0 \<le> n"
  then have all: "takeWhile is_digit (show_nat n) = show_nat n"
    using show_nat_digits by simp
  have ne: "show_nat n \<noteq> []"
    using n show_nat_digits by blast
  show ?thesis
    using n ne by (simp add: parseInt_digits_def Let_def all digits_val_show_nat)
qed

lemma show_nat_head:
  assumes "0 \<le> n"
  obtains c r where "show_nat n = c # r" and "\<not> is_space c" and "c \<noteq> CHR ''-''" and "c \<noteq> CHR ''+''"
proof -
  from assms obtain c r where cr: "show_nat n = c # r"
    using show_nat_digits [of n] by (cases "show_nat n") auto
  have "\<exists>d. 0 \<le> d \<and> d < 10 \<and> c = digit_char d"
  proof -
    from assms cr have dg: "is_digit c" using show_nat_digits [of n] by simp
    let ?d = "of_char c - (48 :: int)"
    from dg have "0 \<le> ?d \<and> ?d < 10" by (simp add: is_digit_def)
    moreover from dg have "c = digit_char ?d"
      by (simp add: digit_char_def is_digit_def)
    ultimately show ?thesis by blast
  qed
  then obtain d where "0 \<le> d" "d < 10" "c = digit_char d" by blast
  then have "\<not> is_space c" "c \<noteq> CHR ''-''" "c \<noteq> CHR ''+''"
    using digit_char_props by simp_all
  with cr show ?thesis using that by blast
qed

lemma parseInt10_show_int: "parseInt10 (show_int i) = Num (of_int i)"
proof (cases "i < 0")
  case True
  then have pos: "0 \<le> - i" by simp
  have sp: "\<not> is_space CHR ''-''" by (simp add: is_space_def)
  show ?thesis
    using True sp parseInt_digits_show_nat [OF pos]
    by (simp add: parseInt10_def show_int_def)
next
  case False
  then have pos: "0 \<le> i" by simp
  obtain c r where cr: "show_nat i = c # r" "\<not> is_space c" "c \<noteq> CHR ''-''" "c \<noteq> CHR ''+''"
    using show_nat_head [OF pos] by blast
  show ?thesis
    using False cr parseInt_digits_show_nat [OF pos]
    by (simp add: parseInt10_def show_int_def)
qed

lemma show_int_nonempty: "show_int i \<noteq> []"
proof (cases "i < 0")
  case True
  then show ?thesis by (simp add: show_int_def)
next
  case False
  then have "0 \<le> i" by simp
  then have "show_nat i \<noteq> []" using show_nat_digits by blast
  with False show ?thesis by (simp add: show_int_def)
qed

lemma cache_read_after_write:
  assumes "available st"
  shows "getCachedDiscountData now (cacheDiscountData data storedAt st) =
           (if now - storedAt < 3600000 then data else JNull)"
proof -
  have age: "js_sub (Num (of_int now)) (parseInt10 (show_int storedAt)) = Num (of_int (now - storedAt))"
    by (simp add: parseInt10_show_int js_sub_def)
  have lt: "js_lt (Num (of_int (now - storedAt))) CACHE_DURATION_MS = (now - storedAt < 3600000)"
  proof -
    have "(rat_of_int (now - storedAt) < rat_of_int 3600000) = (now - storedAt < 3600000)"
      by (rule of_int_less_iff)
    then show ?thesis by (simp add: CACHE_DURATION_MS_def)
  qed
  show ?thesis
    using assms show_int_nonempty [of storedAt]
    by (simp add: getCachedDiscountData_def getCachedDiscountData_try_def cacheDiscountData_def
        JSON_stringify_def age lt del: of_int_diff)
qed

lemma resolve_data_fetches:
  "resolve_data readNow outcome writeNow w = Inr (data, w2) \<Longrightarrow>
   fetches w2 = (if truthy (Some (getCachedDiscountData readNow (storage w))) then fetches w
                 else fetches w + 1)"
  by (auto simp: resolve_data_def Let_def split: if_splits sum.splits)

text \<open>
  Whether \<open>init\<close> completes or is rejected, it has made no request when the
  cache gave data and one request when it gave none.
\<close>

lemma init_fetches:
  assumes "has_pricing_class (page w)"
  shows "fetches (final_world (init readNow outcome writeNow w)) =
           (if truthy (Some (getCachedDiscountData readNow (storage w)))
            then fetches w else fetches w + 1)"
proof -
  let ?w1 = "w\<lparr> page := hidePrices (page w) \<rparr>"
  obtain data w2 where r: "resolve_data readNow outcome writeNow ?w1 = Inr (data, w2)"
    using resolve_data_total by blast
  have f: "fetches w2 = (if truthy (Some (getCachedDiscountData readNow (storage w))) then fetches w
                 else fetches w + 1)"
    using resolve_data_fetches [OF r] by simp
  show ?thesis
    using f by (simp add: init_with_data [OF assms r] final_world_def split: sum.split)
qed

lemma resolve_data_cached:
  "truthy (Some (getCachedDiscountData readNow (storage w))) \<Longrightarrow>
   resolve_data readNow outcome writeNow w = Inr (getCachedDiscountData readNow (storage w), w)"
  by (simp add: resolve_data_def Let_def)

text \<open>
  C3: for an entry stored by \<open>cacheDiscountData\<close> at the time \<open>storedAt\<close> and
  read at the time \<open>now\<close>: when the age \<open>now - storedAt\<close> is below one hour
  the cache read returns the stored response, and \<open>init\<close> (the stored response
  being truthy, as every response that \<open>init\<close> stores is) goes on with that
  response and makes no request; when the age is one hour or more the cache read
  returns \<open>null\<close> and \<open>init\<close> makes one request. The number of requests is
  that of the world \<open>init\<close> leaves, whether it completes or is rejected.
\<close>

theorem cache_valid_for_one_hour:
  "available st \<Longrightarrow> storage w = cacheDiscountData data storedAt st \<Longrightarrow>
   (now - storedAt < 3600000 \<longrightarrow> getCachedDiscountData now (storage w) = data)
   \<and> (3600000 \<le> now - storedAt \<longrightarrow> getCachedDiscountData now (storage w) = JNull)
   \<and> (truthy (Some data) \<longrightarrow> now - storedAt < 3600000 \<longrightarrow>
        resolve_data now outcome writeNow w = Inr (data, w))
   \<and> (has_pricing_class (page w) \<longrightarrow> truthy (Some data) \<longrightarrow> now - storedAt < 3600000 \<longrightarrow>
        fetches (final_world (init now outcome writeNow w)) = fetches w)
   \<and> (has_pricing_class (page w) \<longrightarrow> 3600000 \<le> now - storedAt \<longrightarrow>
        fetches (final_world (init now outcome writeNow w)) = fetches w + 1)"
proof -
  assume av: "available st" and st: "storage w = cacheDiscountData data storedAt st"
  have rd: "getCachedDiscountData now (storage w) = (if now - storedAt < 3600000 then data else JNull)"
    using cache_read_after_write [OF av] st by simp
  show ?thesis
    using rd init_fetches [of w now outcome writeNow] resolve_data_cached [of now w outcome writeNow]
    by auto
qed

theorem cache_valid_for_one_hour_witness:
  "available empty_storage
   \<and> getCachedDiscountData 3601004 (storage cached_world) = india_response
   \<and> resolve_data 3601004 NetworkFailure 3601009 cached_world = Inr (india_response, cached_world)
   \<and> fetches (final_world (init 3601004 NetworkFailure 3601009 cached_world)) = 0
   \<and> getCachedDiscountData 3601005 (storage cached_world) = JNull
   \<and> fetches (final_world (init 3601005 NetworkFailure 3601009 cached_world)) = 1"
proof -
  have av: "available empty_storage" by (simp add: empty_storage_def)
  have st: "storage cached_world = cacheDiscountData india_response 1005 empty_storage"
    by (simp add: cached_world_def)
  have pc: "has_pricing_class (page cached_world)"
    by (simp add: cached_world_def fresh_world_def pricing_page_def has_pricing_class_def)
  have tr: "truthy (Some india_response)" by (simp add: india_response_def)
  have f0: "fetches cached_world = 0" by (simp add: cached_world_def fresh_world_def)
  show ?thesis
    using av pc tr f0
      cache_valid_for_one_hour [OF av st, of 3601004 NetworkFailure 3601009]
      cache_valid_for_one_hour [OF av st, of 3601005 NetworkFailure 3601009]
    by simp
qed

subsection \<open>Number texts\<close>

lemma digit_char_zero: "digit_char 0 = CHR ''0''"
  by code_simp

lemma show_nat_trailing_zeros:
  "0 < n \<Longrightarrow> show_nat (n div 10 ^ trailing_zeros n) @ replicate (trailing_zeros n) CHR ''0'' = show_nat n"
proof (induction n rule: trailing_zeros.induct)
  case (1 m)
  show ?case
  proof (cases "m mod 10 = 0")
    case True
    with 1(2) have pos: "0 < m div 10" by presburger
    from True 1(2) have tz: "trailing_zeros m = Suc (trailing_zeros (m div 10))"
      by (simp add: trailing_zeros.simps [of m])
    from True 1(2) have big: "\<not> m < 10" by presburger
    have ih: "show_nat (m div 10 div 10 ^ trailing_zeros (m div 10))
                @ replicate (trailing_zeros (m div 10)) CHR ''0'' = show_nat (m div 10)"
      using 1(1) 1(2) True pos by simp
    have d: "m div 10 ^ Suc (trailing_zeros (m div 10)) = m div 10 div 10 ^ trailing_zeros (m div 10)"
      by (simp add: zdiv_zmult2_eq)
    have "show_nat (m div 10 ^ trailing_zeros m) @ replicate (trailing_zeros m) CHR ''0''
            = (show_nat (m div 10 div 10 ^ trailing_zeros (m div 10))
                @ replicate (trailing_zeros (m div 10)) CHR ''0'') @ [CHR ''0'']"
      unfolding tz d by (simp add: replicate_append_same)
    also have "\<dots> = show_nat (m div 10) @ [CHR ''0'']"
      using ih by simp
    also have "\<dots> = show_nat m"
      using big True by (simp add: show_nat.simps [of m] digit_char_zero)
    finally show ?thesis .
  next
    case False
    then have "trailing_zeros m = 0"
      by (simp add: trailing_zeros.simps [of m])
    then show ?thesis by simp
  qed
qed

lemma show_nat_length: "0 \<le> n \<Longrightarrow> n < 10 ^ Suc d \<Longrightarrow> length (show_nat n) \<le> Suc d"
proof (induction d arbitrary: n)
  case 0
  then show ?case by (simp add: show_nat.simps [of n])
next
  case (Suc d)
  show ?case
  proof (cases "n < 10")
    case True
    then show ?thesis by (simp add: show_nat.simps [of n])
  next
    case False
    from Suc.prems have "n div 10 < 10 ^ Suc d" by simp
    moreover from Suc.prems have "0 \<le> n div 10" by simp
    ultimately have "length (show_nat (n div 10)) \<le> Suc d"
      using Suc.IH by blast
    with False show ?thesis by (simp add: show_nat.simps [of n])
  qed
qed

lemma decimal_places_whole: "decimal_places (of_int i) = 0"
  by (simp add: decimal_places_def Let_def count_factor.simps [of _ 1])

lemma positive_text_whole:
  assumes "0 < i" and "i < 2 ^ 53"
  shows "positive_text (of_int i) = show_nat i"
proof -
  let ?z = "trailing_zeros i"
  let ?ds = "show_nat (i div 10 ^ ?z)"
  have "\<lfloor>rat_of_int i + 1 / 2\<rfloor> = i"
    by (rule floor_unique) simp_all
  then have m: "\<lfloor>rat_of_int i * 10 ^ 0 + 1 / 2\<rfloor> = i" by simp
  have whole: "?ds @ replicate ?z CHR ''0'' = show_nat i"
    using assms(1) by (rule show_nat_trailing_zeros)
  have "i < 10 ^ Suc 15" using assms(2) by simp
  then have "length (show_nat i) \<le> Suc 15"
    using assms(1) show_nat_length [of i 15] by simp
  moreover have "length ?ds + ?z = length (show_nat i)"
    using whole by (metis length_append length_replicate)
  ultimately have len: "length ?ds + ?z \<le> 16" by simp
  have "layout ?ds (int (length ?ds) + int ?z - int 0) = ?ds @ replicate ?z CHR ''0''"
    using len by (simp add: layout_def Let_def)
  then show ?thesis
    using assms(1) whole m
    by (simp add: positive_text_def decimal_places_whole Let_def del: of_int_mult of_int_add)
qed

text \<open>The text of a whole number below \<open>2^53\<close> is its decimal numeral.\<close>

lemma js_toString_whole:
  assumes "plain_number (Num a)"
  shows "js_toString (Num a) = show_int \<lfloor>a\<rfloor>"
proof -
  let ?i = "\<lfloor>a\<rfloor>"
  from assms have a: "a = of_int ?i" and bound: "\<bar>a\<bar> < 2 ^ 53"
    by (simp_all add: plain_number_def)
  from bound a have ib: "\<bar>?i\<bar> < 2 ^ 53"
    by (metis of_int_abs of_int_less_numeral_power_cancel_iff)
  consider "?i = 0" | "0 < ?i" | "?i < 0" by linarith
  then show ?thesis
  proof cases
    case 1
    with a have "a = 0" by simp
    then show ?thesis
      by (simp add: show_int_def show_nat.simps [of 0] digit_char_zero)
  next
    case 2
    with ib have "?i < 2 ^ 53" by simp
    then have "positive_text (of_int ?i) = show_nat ?i"
      using 2 positive_text_whole by blast
    moreover from 2 a have "0 < a" by (metis of_int_0_less_iff)
    ultimately show ?thesis
      using 2 a by (simp add: show_int_def)
  next
    case 3
    with ib have "- ?i < 2 ^ 53" and pos: "0 < - ?i" by simp_all
    then have "positive_text (of_int (- ?i)) = show_nat (- ?i)"
      using positive_text_whole by blast
    moreover from 3 a have "a < 0" by (metis of_int_less_0_iff)
    moreover from a have "- a = of_int (- ?i)" by simp
    ultimately show ?thesis
      using 3 by (simp add: show_int_def del: of_int_minus)
  qed
qed

text \<open>
  The text of a number has no character that gives a dollar sign a meaning in a
  replacement string.
\<close>

lemma is_digit_no_pattern_char: "is_digit c \<Longrightarrow> \<not> pattern_char c"
  by (auto simp: is_digit_def pattern_char_def)

lemma show_nat_no_pattern_char: "0 \<le> n \<Longrightarrow> c \<in> set (show_nat n) \<Longrightarrow> \<not> pattern_char c"
  using show_nat_digits [of n] is_digit_no_pattern_char by blast

lemma layout_no_pattern_char:
  assumes "\<forall>c \<in> set ds. \<not> pattern_char c" and "c \<in> set (layout ds n)"
  shows "\<not> pattern_char c"
proof -
  have e: "\<And>c. c \<in> set (show_nat \<bar>n - 1\<bar>) \<Longrightarrow> \<not> pattern_char c"
    using show_nat_no_pattern_char [of "\<bar>n - 1\<bar>"] by simp
  have lit: "\<not> pattern_char CHR ''0''" "\<not> pattern_char CHR ''.''" "\<not> pattern_char CHR ''e''"
    "\<not> pattern_char CHR ''-''" "\<not> pattern_char CHR ''+''"
    by (simp_all add: pattern_char_def)
  from assms(2) show ?thesis
    using assms(1) e lit
    by (auto simp: layout_def Let_def split: if_splits dest: in_set_takeD in_set_dropD)
qed

lemma positive_text_no_pattern_char:
  assumes "0 < x" and "c \<in> set (positive_text x)"
  shows "\<not> pattern_char c"
proof -
  let ?m = "\<lfloor>x * 10 ^ decimal_places x + 1 / 2\<rfloor>"
  let ?ds = "show_nat (?m div 10 ^ trailing_zeros ?m)"
  from assms(1) have "0 \<le> x * 10 ^ decimal_places x + 1 / 2" by simp
  then have "0 \<le> ?m" by simp
  then have "0 \<le> ?m div 10 ^ trailing_zeros ?m"
    by (simp add: pos_imp_zdiv_nonneg_iff)
  then have ds: "\<forall>c \<in> set ?ds. \<not> pattern_char c"
    using show_nat_no_pattern_char by blast
  have z: "\<not> pattern_char CHR ''0''" by (simp add: pattern_char_def)
  from assms(2) show ?thesis
    using layout_no_pattern_char [OF ds] z
    by (auto simp: positive_text_def Let_def split: if_splits)
qed

lemma js_toString_no_pattern_char: "c \<in> set (js_toString x) \<Longrightarrow> \<not> pattern_char c"
proof (cases x)
  case (Num a)
  assume c: "c \<in> set (js_toString x)"
  have m: "\<not> pattern_char CHR ''-''" "\<not> pattern_char CHR ''0''" by (simp_all add: pattern_char_def)
  show ?thesis
    using c Num m positive_text_no_pattern_char [of a c] positive_text_no_pattern_char [of "- a" c]
    by (auto split: if_splits)
qed (auto simp: pattern_char_def)

lemma no_dollar_no_pattern: "CHR ''$'' \<notin> set s \<Longrightarrow> \<not> has_pattern s"
  by (induction s rule: has_pattern.induct) auto

lemma dollar_then_plain:
  assumes "\<forall>c \<in> set s. \<not> pattern_char c"
  shows "\<not> has_pattern (CHR ''$'' # s)"
proof (cases s)
  case Nil
  then show ?thesis by simp
next
  case (Cons d r)
  have "CHR ''$'' \<notin> set s"
    using assms by (auto simp: pattern_char_def)
  then have "\<not> has_pattern s" by (rule no_dollar_no_pattern)
  with Cons assms show ?thesis by simp
qed

lemma price_text_no_pattern:
  "\<not> has_pattern (formatPriceText x (padStart2 (js_toString y)))"
proof -
  have z: "\<not> pattern_char CHR ''0''" "\<not> pattern_char CHR ''.''" by (simp_all add: pattern_char_def)
  have "\<forall>c \<in> set (js_toString x @ ''.'' @ padStart2 (js_toString y)). \<not> pattern_char c"
    using js_toString_no_pattern_char z by (auto simp: padStart2_def)
  moreover have "\<forall>c \<in> set (js_toString x). \<not> pattern_char c"
    using js_toString_no_pattern_char by blast
  ultimately show ?thesis
    using dollar_then_plain [of "js_toString x @ ''.'' @ padStart2 (js_toString y)"]
      dollar_then_plain [of "js_toString x"]
    by (simp add: formatPriceText_def)
qed

lemma calculated_price_texts_no_pattern:
  "\<not> has_pattern (formatPriceText (monthly (calculatePrices p)) (monthlyCents (calculatePrices p)))
   \<and> \<not> has_pattern (formatPriceText (annual (calculatePrices p)) (annualCents (calculatePrices p)))"
  using price_text_no_pattern by (simp add: calculatePrices_def Let_def)

subsection \<open>Comparison tables\<close>

text \<open>
  A replacement string in which no dollar sign has a meaning is inserted as it
  is, so the replacement is that of the reference function.
\<close>

lemma expand_replacement_plain:
  "\<not> has_pattern rep \<Longrightarrow> expand_replacement rep matched pre post = rep"
  by (induction rep matched pre post rule: expand_replacement.induct)
    (auto simp: pattern_char_def)

lemma replace_from_plain:
  "\<not> has_pattern rep \<Longrightarrow> replace_from pat rep pre s = spec_replace_all pat rep s"
  by (induction pat rep pre s rule: replace_from.induct) (auto simp: expand_replacement_plain)

lemma replace_all_plain:
  "\<not> has_pattern rep \<Longrightarrow> replace_all pat rep s = spec_replace_all pat rep s"
  by (simp add: replace_all_def replace_from_plain)

lemma replace_from_no_match:
  "\<not> str_includes t pat \<Longrightarrow> replace_from pat rep pre t = t"
  by (induction pat rep pre t rule: replace_from.induct) auto

lemma updateCell_replaces:
  "updateCell m a t = replace_all ''$182'' a (replace_all ''$19'' m t)"
  by (simp add: updateCell_def Let_def replace_all_def replace_from_no_match)

lemma comparisonCells_updatePriceDisplay:
  "comparisonCells (updatePriceDisplay prices data pg) =
     map (updateCell (formatPriceText (monthly prices) (monthlyCents prices))
                     (formatPriceText (annual prices) (annualCents prices)))
         (comparisonCells pg)"
  by (simp add: updatePriceDisplay_def updateSchemaOrg_def Let_def)

text \<open>
  A pattern whose first character does not occur in it again: no match lies across
  an occurrence of that character, so the scan splits there.
\<close>

lemma boundary_match:
  assumes "d \<notin> set rest" and "xs \<noteq> []" and "prefix (d # rest) (xs @ d # zs)"
  shows "prefix (d # rest) xs"
proof -
  have "prefix (d # rest) xs \<or> (\<exists>us. d # rest = xs @ us \<and> prefix us (d # zs))"
    using assms(3) prefix_append [of "d # rest" xs "d # zs"] by blast
  then consider "prefix (d # rest) xs"
    | us where "d # rest = xs @ us" and "prefix us (d # zs)"
    by blast
  then show ?thesis
  proof cases
    case 1
    then show ?thesis .
  next
    case 2
    from assms(2) obtain x xs' where xs: "xs = x # xs'" by (cases xs) auto
    with 2(1) have rest: "rest = xs' @ us" by simp
    show ?thesis
    proof (cases us)
      case Nil
      with 2(1) show ?thesis by simp
    next
      case (Cons u us')
      with 2(2) have "u = d" by simp
      with Cons rest have "d \<in> set rest" by simp
      with assms(1) show ?thesis by simp
    qed
  qed
qed

lemma spec_replace_all_split:
  assumes "d \<notin> set rest"
  shows "spec_replace_all (d # rest) rep (xs @ d # zs) =
           spec_replace_all (d # rest) rep xs @ spec_replace_all (d # rest) rep (d # zs)"
proof (induction "d # rest" rep xs rule: spec_replace_all.induct)
  case (1 rep)
  show ?case by simp
next
  case (2 rep c s)
  show ?case
  proof (cases "prefix (d # rest) (c # s)")
    case True
    then have len: "length (d # rest) \<le> length (c # s)"
      by (rule prefix_length_le)
    from True have whole: "prefix (d # rest) ((c # s) @ d # zs)"
      by (metis prefix_prefix)
    have "spec_replace_all (d # rest) rep ((c # s) @ d # zs) =
            rep @ spec_replace_all (d # rest) rep (drop (length (d # rest)) ((c # s) @ d # zs))"
      using whole by (simp del: drop_append Cons_prefix_Cons)
    also have "drop (length (d # rest)) ((c # s) @ d # zs) =
                 drop (length (d # rest)) (c # s) @ d # zs"
      using len by simp
    also have "spec_replace_all (d # rest) rep (drop (length (d # rest)) (c # s) @ d # zs) =
                 spec_replace_all (d # rest) rep (drop (length (d # rest)) (c # s))
                   @ spec_replace_all (d # rest) rep (d # zs)"
      using 2(1) True by simp
    finally show ?thesis
      using True by (simp del: Cons_prefix_Cons spec_replace_all.simps(2)
          add: spec_replace_all.simps(2) [of "d # rest" rep c s])
  next
    case False
    have "\<not> prefix (d # rest) ((c # s) @ d # zs)"
      using boundary_match [OF assms, of "c # s" zs] False by blast
    then show ?thesis
      using False 2(2) by (simp del: Cons_prefix_Cons spec_replace_all.simps(2)
          add: spec_replace_all.simps(2) [of "d # rest" rep c s]
            spec_replace_all.simps(2) [of "d # rest" rep c "s @ d # zs"])
  qed
qed

lemma replace_19_at_19:
  "spec_replace_all ''$19'' m (xs @ ''$19'' @ ys) = spec_replace_all ''$19'' m xs @ m @ spec_replace_all ''$19'' m ys"
proof -
  have "spec_replace_all ''$19'' m (xs @ CHR ''$'' # (''19'' @ ys)) =
          spec_replace_all ''$19'' m xs @ spec_replace_all ''$19'' m (CHR ''$'' # (''19'' @ ys))"
    by (rule spec_replace_all_split) simp
  then show ?thesis by simp
qed

lemma replace_182_at_182:
  "spec_replace_all ''$182'' a (xs @ ''$182'' @ ys) = spec_replace_all ''$182'' a xs @ a @ spec_replace_all ''$182'' a ys"
proof -
  have "spec_replace_all ''$182'' a (xs @ CHR ''$'' # (''182'' @ ys)) =
          spec_replace_all ''$182'' a xs @ spec_replace_all ''$182'' a (CHR ''$'' # (''182'' @ ys))"
    by (rule spec_replace_all_split) simp
  then show ?thesis by simp
qed

lemma replace_19_at_182:
  "spec_replace_all ''$19'' m (xs @ ''$182'' @ ys) = spec_replace_all ''$19'' m xs @ ''$182'' @ spec_replace_all ''$19'' m ys"
proof -
  have "spec_replace_all ''$19'' m (xs @ CHR ''$'' # (''182'' @ ys)) =
          spec_replace_all ''$19'' m xs @ spec_replace_all ''$19'' m (CHR ''$'' # (''182'' @ ys))"
    by (rule spec_replace_all_split) simp
  moreover have "spec_replace_all ''$19'' m (''182'' @ ys) = ''182'' @ spec_replace_all ''$19'' m ys"
    by simp
  ultimately show ?thesis by simp
qed

lemma replace_all_19_at_19:
  assumes "\<not> has_pattern m"
  shows "replace_all ''$19'' m (xs @ ''$19'' @ ys) =
           replace_all ''$19'' m xs @ m @ replace_all ''$19'' m ys"
  using replace_19_at_19 [of m xs ys] by (simp only: replace_all_plain [OF assms])

lemma updateCell_at_19:
  assumes "\<not> has_pattern m"
  shows "updateCell m a (xs @ ''$19'' @ ys) =
           replace_all ''$182'' a (replace_all ''$19'' m xs @ m @ replace_all ''$19'' m ys)"
  using replace_all_19_at_19 [OF assms, of xs ys]
  by (simp only: updateCell_replaces)

lemma updateCell_at_182:
  assumes "\<not> has_pattern m" and "\<not> has_pattern a"
  shows "updateCell m a (xs @ ''$182'' @ ys) =
           replace_all ''$182'' a (replace_all ''$19'' m xs) @ a
             @ replace_all ''$182'' a (replace_all ''$19'' m ys)"
  using replace_19_at_182 [of m xs ys]
    replace_182_at_182 [of a "spec_replace_all ''$19'' m xs" "spec_replace_all ''$19'' m ys"]
  by (simp only: updateCell_replaces replace_all_plain [OF assms(1)] replace_all_plain [OF assms(2)])

lemma half_price_cells:
  "comparisonCells (updatePriceDisplay (calculatePrices (Num 50)) india_response comparison_page) =
     [''Free'', ''$9.50/month'', ''$9.500'', ''$9.50.99'', ''$91.200 or $91.20'']"
  by code_simp

text \<open>
  C10: the display update rewrites every cell of the comparison tables, replacing
  \<open>$19\<close> by the monthly price text and then \<open>$182\<close> by the annual price
  text throughout the cell (the integer parts being whole numbers below
  \<open>2^53\<close>). An occurrence of \<open>$19\<close> at any place of the text, whatever
  comes before and after it, is replaced by the monthly price text, and an
  occurrence of \<open>$182\<close> by the annual price text, provided that no dollar
  sign of the price texts has a meaning in a replacement string; none has in the
  price texts of \<open>calculatePrices\<close>. At 50 percent \<open>$190\<close> becomes
  \<open>$9.500\<close>, \<open>$19.99\<close> becomes \<open>$9.50.99\<close> and \<open>$1820\<close> becomes
  \<open>$91.200\<close>.
\<close>

theorem comparison_cell_rewrite:
  "(plain_number (monthly prices) \<longrightarrow> plain_number (annual prices) \<longrightarrow>
      comparisonCells (updatePriceDisplay prices data pg) =
        map (updateCell (formatPriceText (monthly prices) (monthlyCents prices))
                        (formatPriceText (annual prices) (annualCents prices)))
            (comparisonCells pg))
   \<and> updateCell m a t = replace_all ''$182'' a (replace_all ''$19'' m t)
   \<and> (\<not> has_pattern m \<longrightarrow>
        updateCell m a (xs @ ''$19'' @ ys) =
          replace_all ''$182'' a (replace_all ''$19'' m xs @ m @ replace_all ''$19'' m ys))
   \<and> (\<not> has_pattern m \<longrightarrow> \<not> has_pattern a \<longrightarrow>
        updateCell m a (xs @ ''$182'' @ ys) =
          replace_all ''$182'' a (replace_all ''$19'' m xs) @ a
            @ replace_all ''$182'' a (replace_all ''$19'' m ys))
   \<and> \<not> has_pattern (formatPriceText (monthly (calculatePrices p)) (monthlyCents (calculatePrices p)))
   \<and> \<not> has_pattern (formatPriceText (annual (calculatePrices p)) (annualCents (calculatePrices p)))
   \<and> comparisonCells (updatePriceDisplay (calculatePrices (Num 50)) india_response comparison_page) =
       [''Free'', ''$9.50/month'', ''$9.500'', ''$9.50.99'', ''$91.200 or $91.20'']"
  using comparisonCells_updatePriceDisplay [of prices data pg] updateCell_replaces [of m a t]
    updateCell_at_19 [of m a xs ys] updateCell_at_182 [of m a xs ys]
    calculated_price_texts_no_pattern [of p] half_price_cells
  by blast

theorem comparison_cell_rewrite_witness:
  "plain_number (monthly (calculatePrices (Num 50)))
   \<and> plain_number (annual (calculatePrices (Num 50)))
   \<and> comparisonCells (updatePriceDisplay (calculatePrices (Num 50)) india_response comparison_page) =
       map (updateCell ''$9.50'' ''$91.20'') [''Free'', ''$19/month'', ''$190'', ''$19.99'', ''$1820 or $182'']
   \<and> \<not> has_pattern ''$9.50'' \<and> \<not> has_pattern ''$91.20''
   \<and> updateCell ''$9.50'' ''$91.20'' ''Plus $19/month, $190 for ten'' =
       ''Plus $9.50/month, $9.500 for ten''
   \<and> updateCell ''$9.50'' ''$91.20'' ''$1820 or $182/year'' = ''$91.200 or $91.20/year''"
proof -
  have pm: "plain_number (monthly (calculatePrices (Num 50)))" by code_simp
  have pa: "plain_number (annual (calculatePrices (Num 50)))" by code_simp
  have tm: "formatPriceText (monthly (calculatePrices (Num 50))) (monthlyCents (calculatePrices (Num 50))) = ''$9.50''"
    by code_simp
  have ta: "formatPriceText (annual (calculatePrices (Num 50))) (annualCents (calculatePrices (Num 50))) = ''$91.20''"
    by code_simp
  have cells: "comparisonCells comparison_page = [''Free'', ''$19/month'', ''$190'', ''$19.99'', ''$1820 or $182'']"
    by (simp add: comparison_page_def)
  have hm: "\<not> has_pattern ''$9.50''" by (simp add: pattern_char_def)
  have ha: "\<not> has_pattern ''$91.20''" by (simp add: pattern_char_def)
  have link: "comparisonCells (updatePriceDisplay (calculatePrices (Num 50)) india_response comparison_page) =
       map (updateCell ''$9.50'' ''$91.20'') [''Free'', ''$19/month'', ''$190'', ''$19.99'', ''$1820 or $182'']"
  proof -
    have "comparisonCells (updatePriceDisplay (calculatePrices (Num 50)) india_response comparison_page) =
        map (updateCell
               (formatPriceText (monthly (calculatePrices (Num 50))) (monthlyCents (calculatePrices (Num 50))))
               (formatPriceText (annual (calculatePrices (Num 50))) (annualCents (calculatePrices (Num 50)))))
            (comparisonCells comparison_page)"
      using comparison_cell_rewrite [of "calculatePrices (Num 50)" india_response comparison_page] pm pa
      by blast
    then show ?thesis by (simp only: tm ta cells)
  qed
  have "updateCell ''$9.50'' ''$91.20'' (''Plus '' @ ''$19'' @ ''/month, $190 for ten'') =
          replace_all ''$182'' ''$91.20''
            (replace_all ''$19'' ''$9.50'' ''Plus '' @ ''$9.50''
               @ replace_all ''$19'' ''$9.50'' ''/month, $190 for ten'')"
    using comparison_cell_rewrite [of _ _ _ "''$9.50''" "''$91.20''"] hm by blast
  moreover have "replace_all ''$19'' ''$9.50'' ''Plus '' = ''Plus ''" by code_simp
  moreover have "replace_all ''$19'' ''$9.50'' ''/month, $190 for ten'' = ''/month, $9.500 for ten''"
    by code_simp
  moreover have "replace_all ''$182'' ''$91.20'' ''Plus $9.50/month, $9.500 for ten'' =
                   ''Plus $9.50/month, $9.500 for ten''"
    by code_simp
  ultimately have c19: "updateCell ''$9.50'' ''$91.20'' ''Plus $19/month, $190 for ten'' =
       ''Plus $9.50/month, $9.500 for ten''" by simp
  have "updateCell ''$9.50'' ''$91.20'' (''$1820 or '' @ ''$182'' @ ''/year'') =
          replace_all ''$182'' ''$91.20'' (replace_all ''$19'' ''$9.50'' ''$1820 or '') @ ''$91.20''
            @ replace_all ''$182'' ''$91.20'' (replace_all ''$19'' ''$9.50'' ''/year'')"
    using comparison_cell_rewrite [of _ _ _ "''$9.50''" "''$91.20''"] hm ha by blast
  moreover have "replace_all ''$182'' ''$91.20'' (replace_all ''$19'' ''$9.50'' ''$1820 or '') = ''$91.200 or ''"
    by code_simp
  moreover have "replace_all ''$182'' ''$91.20'' (replace_all ''$19'' ''$9.50'' ''/year'') = ''/year''"
    by code_simp
  ultimately have c182: "updateCell ''$9.50'' ''$91.20'' ''$1820 or $182/year'' = ''$91.200 or $91.20/year''"
    by simp
  show ?thesis
    using pm pa link hm ha c19 c182 by blast
qed

subsection \<open>Structured data\<close>

text \<open>
  One step of the loop does to an offer named by a string what the reference
  function does, and reports no modification only when the offer is unchanged.
\<close>

lemma patch_offer_priced:
  assumes "named_by_string offer"
  shows "\<exists>m. patch_offer prices offer = Inr (spec_priced_offer prices offer, m)
             \<and> (\<not> m \<longrightarrow> spec_priced_offer prices offer = offer)"
proof (cases "get_prop offer ''name''")
  case None
  with assms show ?thesis
    by (auto simp: patch_offer_def spec_priced_offer_def named_by_string_def)
next
  case (Some v)
  with assms obtain s where s: "get_prop offer ''name'' = Some (JStr s)"
    by (cases v) (simp_all add: named_by_string_def)
  from assms have nn: "offer \<noteq> JNull" by (simp add: named_by_string_def)
  show ?thesis
  proof (cases "s = []")
    case True
    with s nn show ?thesis
      by (auto simp: patch_offer_def spec_priced_offer_def)
  next
    case False
    with s nn show ?thesis
      by (auto simp: patch_offer_def spec_priced_offer_def name_includes_def)
  qed
qed

lemma patch_offers_priced:
  "\<forall>offer \<in> set offers. named_by_string offer \<Longrightarrow>
   \<exists>m. patch_offers prices offers = Inr (map (spec_priced_offer prices) offers, m)
        \<and> (\<not> m \<longrightarrow> map (spec_priced_offer prices) offers = offers)"
proof (induction offers)
  case Nil
  show ?case by auto
next
  case (Cons offer rest)
  from Cons.prems obtain m1 where
    h: "patch_offer prices offer = Inr (spec_priced_offer prices offer, m1)"
       "\<not> m1 \<longrightarrow> spec_priced_offer prices offer = offer"
    using patch_offer_priced [of offer prices] by auto
  from Cons obtain m2 where
    t: "patch_offers prices rest = Inr (map (spec_priced_offer prices) rest, m2)"
       "\<not> m2 \<longrightarrow> map (spec_priced_offer prices) rest = rest"
    by auto
  show ?case
    using h t by simp
qed

lemma patch_script_priced:
  assumes "map_of skvs ''offers'' = Some (JArr offers)"
    and "\<forall>offer \<in> set offers. named_by_string offer"
  shows "patch_script prices (Encodes (JObj skvs)) =
           Encodes (JObj (AList.update ''offers'' (JArr (map (spec_priced_offer prices) offers)) skvs))"
proof -
  obtain m where
    p: "patch_offers prices offers = Inr (map (spec_priced_offer prices) offers, m)"
       "\<not> m \<longrightarrow> map (spec_priced_offer prices) offers = offers"
    using patch_offers_priced [OF assms(2), of prices] by blast
  show ?thesis
  proof (cases m)
    case True
    with assms(1) p(1) show ?thesis
      by (simp add: patch_script_def patch_script_try_def patch_schema_def store_offers_def
          JSON_stringify_def)
  next
    case False
    with p(2) have same: "map (spec_priced_offer prices) offers = offers" by simp
    have "AList.update ''offers'' (JArr offers) skvs = skvs"
      using assms(1) by (rule update_triv)
    with assms(1) p(1) False same show ?thesis
      by (simp add: patch_script_def patch_script_try_def patch_schema_def)
  qed
qed

lemma spec_priced_offer_monthly:
  assumes "map_of kvs ''name'' = Some (JStr s)" and "str_includes s ''Monthly''"
  shows "spec_priced_offer prices (JObj kvs) =
           JObj (AList.update ''price'' (JStr (js_toString (monthly prices))) kvs)"
  using assms by (simp add: spec_priced_offer_def set_price_def)

lemma spec_priced_offer_yearly:
  assumes "map_of kvs ''name'' = Some (JStr s)" and "\<not> str_includes s ''Monthly''"
    and "str_includes s ''Yearly''"
  shows "spec_priced_offer prices (JObj kvs) =
           JObj (AList.update ''price'' (JStr (js_toString (annual prices))) kvs)"
  using assms by (simp add: spec_priced_offer_def set_price_def)

lemma patch_offer_cents:
  "patch_offer (prices\<lparr> monthlyCents := mc, annualCents := ac \<rparr>) offer = patch_offer prices offer"
  by (simp add: patch_offer_def split: sum.split)

lemma patch_offers_cents:
  "patch_offers (prices\<lparr> monthlyCents := mc, annualCents := ac \<rparr>) offers = patch_offers prices offers"
  by (induction offers) (simp_all add: patch_offer_cents split: sum.split)

lemma patch_schema_cents:
  "patch_schema (prices\<lparr> monthlyCents := mc, annualCents := ac \<rparr>) t schema =
     patch_schema prices t schema"
  by (simp add: patch_schema_def patch_offers_cents cong: option.case_cong json.case_cong)

lemma patch_script_cents:
  "patch_script (prices\<lparr> monthlyCents := mc, annualCents := ac \<rparr>) t = patch_script prices t"
  by (simp add: patch_script_def patch_script_try_def patch_schema_cents cong: sum.case_cong)

lemma updateSchemaOrg_cents:
  "updateSchemaOrg (prices\<lparr> monthlyCents := mc, annualCents := ac \<rparr>) pg = updateSchemaOrg prices pg"
  by (simp add: updateSchemaOrg_def patch_script_cents)

lemma updateSchemaOrg_scripts:
  assumes "schemaScripts pg = scripts1 @ Encodes (JObj skvs) # scripts2"
    and "map_of skvs ''offers'' = Some (JArr offers)"
    and "\<forall>offer \<in> set offers. named_by_string offer"
  shows "schemaScripts (updateSchemaOrg prices pg) =
           map (patch_script prices) scripts1
           @ Encodes (JObj (AList.update ''offers'' (JArr (map (spec_priced_offer prices) offers)) skvs))
           # map (patch_script prices) scripts2"
  using assms(1) patch_script_priced [OF assms(2,3), of prices]
  by (simp add: updateSchemaOrg_def)

lemma schemaScripts_updatePriceDisplay:
  "schemaScripts (updatePriceDisplay prices data pg) = schemaScripts (updateSchemaOrg prices pg)"
  by (simp add: updatePriceDisplay_def updateSchemaOrg_def Let_def)

lemma half_price_schema:
  "formatPriceText (monthly (calculatePrices (Num 50))) (monthlyCents (calculatePrices (Num 50))) = ''$9.50''
   \<and> formatPriceText (annual (calculatePrices (Num 50))) (annualCents (calculatePrices (Num 50))) = ''$91.20''
   \<and> schemaScripts (updateSchemaOrg (calculatePrices (Num 50)) pricing_page) =
       [Encodes (JObj [(''@type'', JStr ''Product''),
                       (''offers'', JArr [JObj [(''name'', JStr ''Plus Monthly''), (''price'', JStr ''9'')],
                                         JObj [(''name'', JStr ''Plus Yearly''), (''price'', JStr ''91'')]])])]"
  by code_simp

text \<open>
  C9: \<open>updateSchemaOrg\<close> rewrites a script whose offers are named by strings
  with each offer priced as follows: an offer whose name contains \<open>Monthly\<close>
  gets as its price the text of \<open>prices.monthly\<close>, also when the name contains
  \<open>Yearly\<close> as well; an offer whose name contains \<open>Yearly\<close> and not
  \<open>Monthly\<close> gets the text of \<open>prices.annual\<close>. These two are the integer
  parts that \<open>calculatePrices\<close> returns, the floors of the unrounded prices,
  here whole numbers below \<open>2^53\<close>, and the text of such a number is its
  decimal numeral; the cents strings have no influence on the result. The display update leaves the scripts as \<open>updateSchemaOrg\<close> does.
  At 50 percent the displayed prices are \<open>$9.50\<close> and \<open>$91.20\<close> and the
  offers get the prices \<open>9\<close> and \<open>91\<close>.
\<close>

theorem schema_price_is_integer_part:
  "(schemaScripts pg = scripts1 @ Encodes (JObj skvs) # scripts2 \<longrightarrow>
      map_of skvs ''offers'' = Some (JArr offers) \<longrightarrow>
      (\<forall>offer \<in> set offers. named_by_string offer) \<longrightarrow>
      plain_number (monthly prices) \<longrightarrow> plain_number (annual prices) \<longrightarrow>
      schemaScripts (updateSchemaOrg prices pg) =
        map (patch_script prices) scripts1
        @ Encodes (JObj (AList.update ''offers'' (JArr (map (spec_priced_offer prices) offers)) skvs))
        # map (patch_script prices) scripts2)
   \<and> (map_of kvs ''name'' = Some (JStr s) \<longrightarrow> str_includes s ''Monthly'' \<longrightarrow>
        spec_priced_offer prices (JObj kvs) =
          JObj (AList.update ''price'' (JStr (js_toString (monthly prices))) kvs))
   \<and> (map_of kvs ''name'' = Some (JStr s) \<longrightarrow> \<not> str_includes s ''Monthly'' \<longrightarrow>
        str_includes s ''Yearly'' \<longrightarrow>
        spec_priced_offer prices (JObj kvs) =
          JObj (AList.update ''price'' (JStr (js_toString (annual prices))) kvs))
   \<and> monthly (calculatePrices p) = Math_floor (monthlyRaw p)
   \<and> annual (calculatePrices p) = Math_floor (annualRaw p)
   \<and> (plain_number (Num a) \<longrightarrow> js_toString (Num a) = show_int \<lfloor>a\<rfloor>)
   \<and> updateSchemaOrg (prices\<lparr> monthlyCents := mc, annualCents := ac \<rparr>) pg = updateSchemaOrg prices pg
   \<and> schemaScripts (updatePriceDisplay prices data pg) = schemaScripts (updateSchemaOrg prices pg)
   \<and> formatPriceText (monthly (calculatePrices (Num 50))) (monthlyCents (calculatePrices (Num 50))) = ''$9.50''
   \<and> formatPriceText (annual (calculatePrices (Num 50))) (annualCents (calculatePrices (Num 50))) = ''$91.20''
   \<and> schemaScripts (updateSchemaOrg (calculatePrices (Num 50)) pricing_page) =
       [Encodes (JObj [(''@type'', JStr ''Product''),
                       (''offers'', JArr [JObj [(''name'', JStr ''Plus Monthly''), (''price'', JStr ''9'')],
                                         JObj [(''name'', JStr ''Plus Yearly''), (''price'', JStr ''91'')]])])]"
  using updateSchemaOrg_scripts [of pg scripts1 skvs scripts2 offers prices]
    spec_priced_offer_monthly [of kvs s prices] spec_priced_offer_yearly [of kvs s prices]
    calculatePrices_integer_parts [of p] js_toString_whole [of a]
    updateSchemaOrg_cents [of ac mc prices pg]
    schemaScripts_updatePriceDisplay [of prices data pg] half_price_schema
  by blast

theorem schema_price_is_integer_part_witness:
  "named_by_string (JObj [(''name'', JStr ''Plus Monthly''), (''price'', JStr ''19'')])
   \<and> named_by_string (JObj [(''name'', JStr ''Plus Yearly''), (''price'', JStr ''182'')])
   \<and> plain_number (monthly (calculatePrices (Num 50)))
   \<and> plain_number (annual (calculatePrices (Num 50)))
   \<and> schemaScripts (updateSchemaOrg (calculatePrices (Num 50)) pricing_page) =
       [Encodes (JObj [(''@type'', JStr ''Product''),
                       (''offers'', JArr [JObj [(''name'', JStr ''Plus Monthly''), (''price'', JStr ''9'')],
                                         JObj [(''name'', JStr ''Plus Yearly''), (''price'', JStr ''91'')]])])]
   \<and> str_includes ''Plus Monthly and Yearly'' ''Monthly''
   \<and> str_includes ''Plus Monthly and Yearly'' ''Yearly''
   \<and> spec_priced_offer (calculatePrices (Num 50))
        (JObj [(''name'', JStr ''Plus Monthly and Yearly''), (''price'', JStr ''19'')]) =
      JObj [(''name'', JStr ''Plus Monthly and Yearly''), (''price'', JStr ''9'')]
   \<and> \<not> str_includes ''Plus Yearly'' ''Monthly''
   \<and> str_includes ''Plus Yearly'' ''Yearly''
   \<and> spec_priced_offer (calculatePrices (Num 50))
        (JObj [(''name'', JStr ''Plus Yearly''), (''price'', JStr ''182'')]) =
      JObj [(''name'', JStr ''Plus Yearly''), (''price'', JStr ''91'')]
   \<and> plain_number (Num 91)
   \<and> js_toString (Num 91) = ''91''"
proof -
  let ?monthly = "JObj [(''name'', JStr ''Plus Monthly''), (''price'', JStr ''19'')]"
  let ?yearly = "JObj [(''name'', JStr ''Plus Yearly''), (''price'', JStr ''182'')]"
  let ?skvs = "[(''@type'', JStr ''Product''), (''offers'', JArr [?monthly, ?yearly])]"
  let ?prices = "calculatePrices (Num 50)"
  have n1: "named_by_string ?monthly" by (simp add: named_by_string_def)
  have n2: "named_by_string ?yearly" by (simp add: named_by_string_def)
  have pm: "plain_number (monthly ?prices)" by code_simp
  have pa: "plain_number (annual ?prices)" by code_simp
  have tm: "js_toString (monthly ?prices) = ''9''" by code_simp
  have ta: "js_toString (annual ?prices) = ''91''" by code_simp
  have pg: "schemaScripts pricing_page = [] @ Encodes (JObj ?skvs) # []"
    by (simp add: pricing_page_def)
  have offers: "map_of ?skvs ''offers'' = Some (JArr [?monthly, ?yearly])" by simp
  have all: "\<forall>offer \<in> set [?monthly, ?yearly]. named_by_string offer"
    using n1 n2 by simp
  have priced: "map (spec_priced_offer ?prices) [?monthly, ?yearly] =
                  [JObj [(''name'', JStr ''Plus Monthly''), (''price'', JStr ''9'')],
                   JObj [(''name'', JStr ''Plus Yearly''), (''price'', JStr ''91'')]]"
    by code_simp
  have "schemaScripts (updateSchemaOrg ?prices pricing_page) =
          map (patch_script ?prices) []
          @ Encodes (JObj (AList.update ''offers''
                             (JArr (map (spec_priced_offer ?prices) [?monthly, ?yearly])) ?skvs))
          # map (patch_script ?prices) []"
    using schema_price_is_integer_part [of pricing_page "[]" ?skvs "[]" "[?monthly, ?yearly]" ?prices]
      pg offers all pm pa
    by blast
  then have scripts: "schemaScripts (updateSchemaOrg ?prices pricing_page) =
       [Encodes (JObj [(''@type'', JStr ''Product''),
                       (''offers'', JArr [JObj [(''name'', JStr ''Plus Monthly''), (''price'', JStr ''9'')],
                                         JObj [(''name'', JStr ''Plus Yearly''), (''price'', JStr ''91'')]])])]"
    using priced by simp
  have b1: "str_includes ''Plus Monthly and Yearly'' ''Monthly''" by code_simp
  have b2: "str_includes ''Plus Monthly and Yearly'' ''Yearly''" by code_simp
  have nm: "map_of [(''name'', JStr ''Plus Monthly and Yearly''), (''price'', JStr ''19'')] ''name''
              = Some (JStr ''Plus Monthly and Yearly'')" by simp
  have "spec_priced_offer ?prices (JObj [(''name'', JStr ''Plus Monthly and Yearly''), (''price'', JStr ''19'')]) =
          JObj (AList.update ''price'' (JStr (js_toString (monthly ?prices)))
                  [(''name'', JStr ''Plus Monthly and Yearly''), (''price'', JStr ''19'')])"
    using schema_price_is_integer_part
        [of _ _ _ _ _ ?prices "[(''name'', JStr ''Plus Monthly and Yearly''), (''price'', JStr ''19'')]"
          "''Plus Monthly and Yearly''"]
      nm b1
    by blast
  then have both: "spec_priced_offer ?prices
        (JObj [(''name'', JStr ''Plus Monthly and Yearly''), (''price'', JStr ''19'')]) =
      JObj [(''name'', JStr ''Plus Monthly and Yearly''), (''price'', JStr ''9'')]"
    by (simp add: tm)
  have y1: "\<not> str_includes ''Plus Yearly'' ''Monthly''" by code_simp
  have y2: "str_includes ''Plus Yearly'' ''Yearly''" by code_simp
  have ny: "map_of [(''name'', JStr ''Plus Yearly''), (''price'', JStr ''182'')] ''name''
              = Some (JStr ''Plus Yearly'')" by simp
  have "spec_priced_offer ?prices ?yearly =
          JObj (AList.update ''price'' (JStr (js_toString (annual ?prices)))
                  [(''name'', JStr ''Plus Yearly''), (''price'', JStr ''182'')])"
    using schema_price_is_integer_part
        [of _ _ _ _ _ ?prices "[(''name'', JStr ''Plus Yearly''), (''price'', JStr ''182'')]"
          "''Plus Yearly''"]
      ny y1 y2
    by blast
  then have yearly: "spec_priced_offer ?prices ?yearly =
      JObj [(''name'', JStr ''Plus Yearly''), (''price'', JStr ''91'')]"
    by (simp add: ta)
  have p91: "plain_number (Num 91)" by code_simp
  have "js_toString (Num 91) = show_int \<lfloor>91 :: rat\<rfloor>"
    using schema_price_is_integer_part [where a = 91] p91 by blast
  moreover have "show_int \<lfloor>91 :: rat\<rfloor> = ''91''" by code_simp
  ultimately have t91: "js_toString (Num 91) = ''91''" by simp
  show ?thesis
    using n1 n2 pm pa scripts b1 b2 both y1 y2 yearly p91 t91 by blast
qed

end
